theory Spec2Isabelle
  imports Main "HOL-Library.Sublist"
begin

section \<open>Data model\<close>

text \<open>
  The plugin (\<^verbatim>\<open>src/main.ts\<close>, class \<^verbatim>\<open>FormatCheckPlugin\<close>) keeps a set of file paths
  that need formatting. It reads the host's metadata cache, compares two frontmatter
  timestamps and restricts its attention to the configured folders.

  Strings are lists of characters; a character stands for one code unit below 256.
\<close>

type_synonym path = string

text \<open>
  A frontmatter value has the TypeScript type \<^verbatim>\<open>unknown\<close>. \<^verbatim>\<open>toMs\<close> tells three kinds
  apart: a \<^verbatim>\<open>Date\<close> object (its time value is an integral number of milliseconds, or NaN
  for an invalid date, here \<open>None\<close>), a primitive string, and everything else:
  \<^verbatim>\<open>undefined\<close> for a key that is absent, \<^verbatim>\<open>null\<close> for a key with no value, and the other
  values (numbers, booleans, arrays, objects).
\<close>

datatype jsvalue =
    Undefined
  | Null
  | DateObj "int option"
  | StringVal string
  | OtherVal

type_synonym frontmatter = "string \<rightharpoonup> jsvalue"

text \<open>\<^verbatim>\<open>CachedMetadata\<close> of the host, as far as the plugin reads it: the optional frontmatter.\<close>

record cachedMetadata =
  frontmatter :: "frontmatter option"

text \<open>\<^verbatim>\<open>FormatCheckSettings\<close> and \<^verbatim>\<open>DEFAULT_SETTINGS\<close> (\<^verbatim>\<open>settings.ts\<close>).\<close>

record settings =
  dotColor :: string
  includedFolders :: "string list"
  formattedField :: string
  modifiedField :: string

definition DEFAULT_SETTINGS :: settings where
  "DEFAULT_SETTINGS =
     \<lparr>dotColor = ''#f59e0b'', includedFolders = [],
      formattedField = ''formatted'', modifiedField = ''modified''\<rparr>"

text \<open>
  What the plugin reads from its environment and never writes:
  \<^item> \<open>getFileCache\<close>: \<^verbatim>\<open>app.metadataCache.getFileCache(file)\<close>, by the file's path; \<open>None\<close> is
    \<^verbatim>\<open>null\<close> (no cache entry);
  \<^item> \<open>getMarkdownFiles\<close>: \<^verbatim>\<open>app.vault.getMarkdownFiles()\<close>, the paths of the files returned;
  \<^item> \<open>LocalTZA\<close>: the offset of the runtime's time zone, in milliseconds, at a local time
    value (ECMAScript's \<^verbatim>\<open>UTC(t) = t - LocalTZA(t, false)\<close>);
  \<^item> \<open>implParse\<close>: what \<^verbatim>\<open>Date.parse\<close> of this runtime answers on a string that is not of the
    one layout modelled below (the language standard leaves most of them to the
    implementation); \<open>None\<close> is NaN.
\<close>

record host =
  getFileCache :: "path \<Rightarrow> cachedMetadata option"
  getMarkdownFiles :: "path list"
  LocalTZA :: "int \<Rightarrow> int"
  implParse :: "string \<Rightarrow> int option"

text \<open>
  The mutable fields of the plugin object, and the part of the runtime the plugin acts on:
  \<^item> \<open>pendingSaves\<close>: how many calls of \<^verbatim>\<open>saveSettings\<close> are suspended at their
    \<^verbatim>\<open>await this.saveData(...)\<close>;
  \<^item> the timer table (handle and due time of every timeout of the plugin that is pending),
    the next handle and the clock in milliseconds;
  \<^item> the rendered file-tree items \<^verbatim>\<open>.nav-file-title[data-path]\<close> (the path of each, and how
    many \<^verbatim>\<open>.format-check-dot\<close> spans it holds) and the style property
    \<^verbatim>\<open>--format-check-dot-color\<close> of the document body;
  \<^item> \<open>applyDecorationsRuns\<close>: how many times \<^verbatim>\<open>applyDecorations\<close> has run. The source keeps no
    such count; it is kept here to say how often the function runs.
\<close>

record plugin =
  settings :: settings
  needsFormatPaths :: "path set"
  debounceTimer :: "nat option"
  pendingSaves :: nat
  timers :: "(nat \<times> nat) list"
  nextHandle :: nat
  now :: nat
  navFileTitles :: "(path \<times> nat) list"
  dotColorProperty :: "string option"
  applyDecorationsRuns :: nat

section \<open>Strings\<close>

text \<open>
  \<^verbatim>\<open>String.prototype.trim\<close> strips white space and line terminators from both ends; below
  256 these are the code units 9 to 13, 32 and 160.
\<close>

definition isWhiteSpace :: "char \<Rightarrow> bool" where
  "isWhiteSpace c = ((of_char c :: nat) \<in> {9, 10, 11, 12, 13, 32, 160})"

definition trim :: "string \<Rightarrow> string" where
  "trim s = rev (dropWhile isWhiteSpace (rev (dropWhile isWhiteSpace s)))"

text \<open>\<^verbatim>\<open>s.replace(a, b)\<close> with one-character strings: only the first occurrence is replaced.\<close>

fun replaceFirst :: "char \<Rightarrow> char \<Rightarrow> string \<Rightarrow> string" where
  "replaceFirst a b [] = []"
| "replaceFirst a b (c # cs) = (if c = a then b # cs else c # replaceFirst a b cs)"

definition startsWith :: "string \<Rightarrow> string \<Rightarrow> bool" where
  "startsWith s t = prefix t s"

definition endsWith :: "string \<Rightarrow> string \<Rightarrow> bool" where
  "endsWith s t = suffix t s"

section \<open>Dates\<close>

text \<open>
  \<^verbatim>\<open>new Date(s).getTime()\<close> for a string \<open>s\<close>. The standard fixes the result for the
  date-time layout \<^verbatim>\<open>YYYY-MM-DDTHH:mm\<close> with fields in range (month 01 to 12, day within
  the month, hour 00 to 23, minute 00 to 59): with no offset given it is a local time.
  Every other string is left to \<open>implParse\<close>.
\<close>

definition isDigit :: "char \<Rightarrow> bool" where
  "isDigit c = (48 \<le> (of_char c :: nat) \<and> (of_char c :: nat) \<le> 57)"

definition digitsValue :: "string \<Rightarrow> nat" where
  "digitsValue ds = foldl (\<lambda>n c. 10 * n + (of_char c - 48)) 0 ds"

definition readDigits :: "nat \<Rightarrow> nat \<Rightarrow> string \<Rightarrow> nat option" where
  "readDigits i n s =
     (let ds = take n (drop i s)
      in if length ds = n \<and> list_all isDigit ds then Some (digitsValue ds) else None)"

definition msPerDay :: int where
  "msPerDay = 86400000"

definition InLeapYear :: "int \<Rightarrow> bool" where
  "InLeapYear y = (y mod 4 = 0 \<and> (y mod 100 \<noteq> 0 \<or> y mod 400 = 0))"

definition DaysInMonth :: "int \<Rightarrow> nat \<Rightarrow> nat" where
  "DaysInMonth y m =
     (if m = 2 then (if InLeapYear y then 29 else 28)
      else if m = 4 \<or> m = 6 \<or> m = 9 \<or> m = 11 then 30 else 31)"

definition DayFromYear :: "int \<Rightarrow> int" where
  "DayFromYear y =
     365 * (y - 1970) + (y - 1969) div 4 - (y - 1901) div 100 + (y - 1601) div 400"

text \<open>Days of the year before month \<open>m\<close> (1 to 12).\<close>

definition daysBeforeMonth :: "int \<Rightarrow> nat \<Rightarrow> int" where
  "daysBeforeMonth y m =
     [0, 31, 59, 90, 120, 151, 181, 212, 243, 273, 304, 334] ! (m - 1)
       + (if InLeapYear y \<and> 2 < m then 1 else 0)"

definition MakeDay :: "int \<Rightarrow> nat \<Rightarrow> nat \<Rightarrow> int" where
  "MakeDay y m d = DayFromYear y + daysBeforeMonth y m + int d - 1"

definition MakeTime :: "nat \<Rightarrow> nat \<Rightarrow> int" where
  "MakeTime hh mi = int hh * 3600000 + int mi * 60000"

definition MakeDate :: "int \<Rightarrow> int \<Rightarrow> int" where
  "MakeDate day time = day * msPerDay + time"

definition TimeClip :: "int \<Rightarrow> int option" where
  "TimeClip t = (if \<bar>t\<bar> \<le> 8640000000000000 then Some t else None)"

text \<open>The fields of a string of the layout \<^verbatim>\<open>YYYY-MM-DDTHH:mm\<close>, when all are in range.\<close>

definition parseLocalDateTime :: "string \<Rightarrow> (nat \<times> nat \<times> nat \<times> nat \<times> nat) option" where
  "parseLocalDateTime s =
     (if length s = 16 \<and> s ! 4 = CHR ''-'' \<and> s ! 7 = CHR ''-''
         \<and> s ! 10 = CHR ''T'' \<and> s ! 13 = CHR '':''
      then
        (case (readDigits 0 4 s, readDigits 5 2 s, readDigits 8 2 s,
               readDigits 11 2 s, readDigits 14 2 s) of
           (Some y, Some m, Some d, Some hh, Some mi) \<Rightarrow>
             if 1 \<le> m \<and> m \<le> 12 \<and> 1 \<le> d \<and> d \<le> DaysInMonth (int y) m
                \<and> hh \<le> 23 \<and> mi \<le> 59
             then Some (y, m, d, hh, mi) else None
         | _ \<Rightarrow> None)
      else None)"

definition Date_getTime :: "host \<Rightarrow> string \<Rightarrow> int option" where
  "Date_getTime h s =
     (case parseLocalDateTime s of
        Some (y, m, d, hh, mi) \<Rightarrow>
          (let t = MakeDate (MakeDay (int y) m d) (MakeTime hh mi)
           in TimeClip (t - LocalTZA h t))
      | None \<Rightarrow> implParse h s)"

section \<open>The comparison\<close>

text \<open>
  \<^verbatim>\<open>toMs\<close>: a \<^verbatim>\<open>Date\<close> gives its time value, a string that is not blank is trimmed, its
  first space replaced by \<^verbatim>\<open>T\<close>, and parsed; NaN and every other value give \<^verbatim>\<open>null\<close>.
\<close>

fun toMs :: "host \<Rightarrow> jsvalue \<Rightarrow> int option" where
  "toMs h (DateObj tv) = (case tv of None \<Rightarrow> None | Some ms \<Rightarrow> Some ms)"
| "toMs h (StringVal s) =
     (if trim s \<noteq> []
      then (case Date_getTime h (replaceFirst CHR '' '' CHR ''T'' (trim s)) of
              None \<Rightarrow> None | Some ms \<Rightarrow> Some ms)
      else None)"
| "toMs h Undefined = None"
| "toMs h Null = None"
| "toMs h OtherVal = None"

text \<open>
  \<^verbatim>\<open>isInScope\<close>: with no folder configured every path is in scope; otherwise some folder,
  with \<^verbatim>\<open>/\<close> appended unless it ends with one, must be a prefix of the path.
\<close>

definition isInScope :: "settings \<Rightarrow> path \<Rightarrow> bool" where
  "isInScope s p =
     (if length (includedFolders s) = 0 then True
      else list_ex
        (\<lambda>folder.
           let prefix = (if endsWith folder ''/'' then folder else folder @ ''/'')
           in startsWith p prefix)
        (includedFolders s))"

text \<open>
  The expression bound to \<^verbatim>\<open>needsFormat\<close> in \<^verbatim>\<open>checkFile\<close>:
  \<^verbatim>\<open>formattedMs === null || (modifiedMs !== null && formattedMs < modifiedMs)\<close>.
\<close>

definition needsFormat :: "int option \<Rightarrow> int option \<Rightarrow> bool" where
  "needsFormat formattedMs modifiedMs =
     (case formattedMs of
        None \<Rightarrow> True
      | Some f \<Rightarrow> (case modifiedMs of None \<Rightarrow> False | Some m \<Rightarrow> f < m))"

text \<open>
  The predicate as the specification words it: true if the first value is absent, or if
  both are present and the first precedes the second.
\<close>

definition needsFormat_spec :: "int option \<Rightarrow> int option \<Rightarrow> bool" where
  "needsFormat_spec formatted modified =
     (formatted = None \<or> (\<exists>f m. formatted = Some f \<and> modified = Some m \<and> f < m))"

text \<open>
  \<^verbatim>\<open>frontmatter[key]\<close>: the value stored under the key, \<^verbatim>\<open>undefined\<close> when there is none.
  (A key inherited from \<^verbatim>\<open>Object.prototype\<close> yields a function or an object, which
  \<^verbatim>\<open>toMs\<close> maps to \<^verbatim>\<open>null\<close> as it does \<^verbatim>\<open>undefined\<close>.)
\<close>

definition field :: "frontmatter \<Rightarrow> string \<Rightarrow> jsvalue" where
  "field fm key = (case fm key of None \<Rightarrow> Undefined | Some v \<Rightarrow> v)"

definition trackedDelete :: "path \<Rightarrow> plugin \<Rightarrow> plugin" where
  "trackedDelete p st = st\<lparr>needsFormatPaths := needsFormatPaths st - {p}\<rparr>"

definition trackedAdd :: "path \<Rightarrow> plugin \<Rightarrow> plugin" where
  "trackedAdd p st = st\<lparr>needsFormatPaths := insert p (needsFormatPaths st)\<rparr>"

text \<open>\<^verbatim>\<open>checkFile(file)\<close>; the file is given by its path.\<close>

definition checkFile :: "host \<Rightarrow> path \<Rightarrow> plugin \<Rightarrow> plugin" where
  "checkFile h file st =
     (if \<not> isInScope (settings st) file then trackedDelete file st
      else
        (case (case getFileCache h file of None \<Rightarrow> None | Some c \<Rightarrow> frontmatter c) of
           None \<Rightarrow> trackedDelete file st
         | Some fm \<Rightarrow>
             (let formattedMs = toMs h (field fm (formattedField (settings st)));
                  modifiedMs = toMs h (field fm (modifiedField (settings st)))
              in if needsFormat formattedMs modifiedMs
                 then trackedAdd file st
                 else trackedDelete file st)))"

text \<open>\<^verbatim>\<open>scanAllFiles\<close>: clear the set, then check every Markdown file of the vault.\<close>

definition scanAllFiles :: "host \<Rightarrow> plugin \<Rightarrow> plugin" where
  "scanAllFiles h st =
     foldl (\<lambda>s file. checkFile h file s) (st\<lparr>needsFormatPaths := {}\<rparr>) (getMarkdownFiles h)"

section \<open>Decoration and the debounce timer\<close>

text \<open>
  \<^verbatim>\<open>applyDecorations\<close>: every dot is removed, then each rendered item whose path is not
  empty and is in the set gets one.
\<close>

definition applyDecorations :: "plugin \<Rightarrow> plugin" where
  "applyDecorations st =
     st\<lparr>navFileTitles :=
          map (\<lambda>(p, dots). (p, if p \<noteq> [] \<and> p \<in> needsFormatPaths st then 1 else 0))
            (navFileTitles st),
        applyDecorationsRuns := Suc (applyDecorationsRuns st)\<rparr>"

text \<open>
  \<^verbatim>\<open>clearTimeout\<close> drops the timeout of that handle, \<^verbatim>\<open>setTimeout\<close> enters a new one under
  a fresh handle, due after the delay.
\<close>

definition clearTimeout :: "nat \<Rightarrow> plugin \<Rightarrow> plugin" where
  "clearTimeout k st = st\<lparr>timers := filter (\<lambda>(k', due). k' \<noteq> k) (timers st)\<rparr>"

definition setTimeout :: "nat \<Rightarrow> plugin \<Rightarrow> nat \<times> plugin" where
  "setTimeout delay st =
     (nextHandle st,
      st\<lparr>timers := timers st @ [(nextHandle st, now st + delay)],
         nextHandle := Suc (nextHandle st)\<rparr>)"

text \<open>The callback that \<^verbatim>\<open>scheduleApplyDecorations\<close> hands to \<^verbatim>\<open>setTimeout\<close>.\<close>

definition debounceCallback :: "plugin \<Rightarrow> plugin" where
  "debounceCallback st = (applyDecorations st)\<lparr>debounceTimer := None\<rparr>"

text \<open>
  \<^verbatim>\<open>scheduleApplyDecorations\<close>. The test \<^verbatim>\<open>if (this.debounceTimer)\<close> is one of truthiness:
  \<^verbatim>\<open>null\<close> and the number 0 both fail it.
\<close>

definition scheduleApplyDecorations :: "plugin \<Rightarrow> plugin" where
  "scheduleApplyDecorations st =
     (let st1 = (case debounceTimer st of
                   None \<Rightarrow> st
                 | Some k \<Rightarrow> if k \<noteq> 0 then clearTimeout k st else st);
          (k', st2) = setTimeout 50 st1
      in st2\<lparr>debounceTimer := Some k'\<rparr>)"

text \<open>
  Time passing: the clock advances by \<open>d\<close> milliseconds and every timeout that has come
  due runs its callback and leaves the table. (The plugin sets timeouts in
  \<^verbatim>\<open>scheduleApplyDecorations\<close> only, so each callback is the one above.)
\<close>

definition elapse :: "nat \<Rightarrow> plugin \<Rightarrow> plugin" where
  "elapse d st =
     (let st1 = st\<lparr>now := now st + d\<rparr>;
          due = filter (\<lambda>(k, t). t \<le> now st1) (timers st1);
          st2 = st1\<lparr>timers := filter (\<lambda>(k, t). \<not> t \<le> now st1) (timers st1)\<rparr>
      in foldl (\<lambda>s kt. debounceCallback s) st2 due)"

section \<open>Event handlers\<close>

datatype abstractFile = TFile path | TFolder path

text \<open>The handler of \<^verbatim>\<open>metadataCache.on('changed')\<close>.\<close>

definition onChanged :: "host \<Rightarrow> path \<Rightarrow> plugin \<Rightarrow> plugin" where
  "onChanged h file st = scheduleApplyDecorations (checkFile h file st)"

text \<open>The callback of \<^verbatim>\<open>workspace.onLayoutReady\<close>.\<close>

definition onLayoutReady :: "host \<Rightarrow> plugin \<Rightarrow> plugin" where
  "onLayoutReady h st = applyDecorations (scanAllFiles h st)"

text \<open>The handler of \<^verbatim>\<open>workspace.on('layout-change')\<close>.\<close>

definition onLayoutChange :: "plugin \<Rightarrow> plugin" where
  "onLayoutChange st = scheduleApplyDecorations st"

text \<open>The handler of \<^verbatim>\<open>vault.on('delete')\<close>.\<close>

definition onDelete :: "abstractFile \<Rightarrow> plugin \<Rightarrow> plugin" where
  "onDelete af st = (case af of TFile p \<Rightarrow> trackedDelete p st | TFolder p \<Rightarrow> st)"

text \<open>The handler of \<^verbatim>\<open>vault.on('rename')\<close>.\<close>

definition onRename :: "host \<Rightarrow> abstractFile \<Rightarrow> path \<Rightarrow> plugin \<Rightarrow> plugin" where
  "onRename h af oldPath st =
     (case af of
        TFile p \<Rightarrow>
          (let wasTracked = (oldPath \<in> needsFormatPaths st);
               st1 = trackedDelete oldPath st;
               st2 = (if wasTracked then checkFile h p st1 else st1)
           in scheduleApplyDecorations st2)
      | TFolder p \<Rightarrow> st)"

text \<open>\<^verbatim>\<open>updateDotColor\<close> sets the style property to the configured colour.\<close>

definition updateDotColor :: "plugin \<Rightarrow> plugin" where
  "updateDotColor st = st\<lparr>dotColorProperty := Some (dotColor (settings st))\<rparr>"

text \<open>
  \<^verbatim>\<open>saveSettings\<close> is asynchronous: it calls \<^verbatim>\<open>saveData\<close> and is suspended until the host has
  settled that call; other events are handled in between. (What \<^verbatim>\<open>saveData\<close> writes is kept
  by the host, outside this state.)
\<close>

definition saveSettings :: "plugin \<Rightarrow> plugin" where
  "saveSettings st = st\<lparr>pendingSaves := Suc (pendingSaves st)\<rparr>"

text \<open>
  How the host settles a call of \<^verbatim>\<open>saveData\<close>. When it resolves, the suspended
  \<^verbatim>\<open>saveSettings\<close> goes on: the colour is set, the vault is scanned again and the
  decorations are applied. When it rejects, the \<^verbatim>\<open>await\<close> throws and nothing of that is done.
  Without a suspended call there is nothing to settle.
\<close>

datatype settlement = Resolved | Rejected

definition saveDataSettled :: "host \<Rightarrow> settlement \<Rightarrow> plugin \<Rightarrow> plugin" where
  "saveDataSettled h r st =
     (if pendingSaves st = 0 then st
      else
        (let st1 = st\<lparr>pendingSaves := pendingSaves st - 1\<rparr>
         in case r of
              Rejected \<Rightarrow> st1
            | Resolved \<Rightarrow> applyDecorations (scanAllFiles h (updateDotColor st1))))"

section \<open>Settings\<close>

text \<open>
  \<^verbatim>\<open>Partial<FormatCheckSettings>\<close>: an object in which each of the four properties may be
  absent. \<^verbatim>\<open>loadData()\<close> answers such an object, or \<^verbatim>\<open>null\<close> when nothing was stored.
\<close>

record partialSettings =
  dotColor_opt :: "string option"
  includedFolders_opt :: "string list option"
  formattedField_opt :: "string option"
  modifiedField_opt :: "string option"

definition emptyObject :: partialSettings where
  "emptyObject =
     \<lparr>dotColor_opt = None, includedFolders_opt = None,
      formattedField_opt = None, modifiedField_opt = None\<rparr>"

text \<open>A settings record seen as an object: all four properties are present.\<close>

definition asObject :: "settings \<Rightarrow> partialSettings" where
  "asObject s =
     \<lparr>dotColor_opt = Some (dotColor s), includedFolders_opt = Some (includedFolders s),
      formattedField_opt = Some (formattedField s), modifiedField_opt = Some (modifiedField s)\<rparr>"

text \<open>
  \<^verbatim>\<open>Object.assign(target, ...sources)\<close>: from left to right, every property a source has
  is copied onto the target; a source that is \<^verbatim>\<open>null\<close> is skipped.
\<close>

definition copyProperties :: "partialSettings \<Rightarrow> partialSettings \<Rightarrow> partialSettings" where
  "copyProperties target source =
     \<lparr>dotColor_opt =
        (case dotColor_opt source of None \<Rightarrow> dotColor_opt target | Some v \<Rightarrow> Some v),
      includedFolders_opt =
        (case includedFolders_opt source of None \<Rightarrow> includedFolders_opt target | Some v \<Rightarrow> Some v),
      formattedField_opt =
        (case formattedField_opt source of None \<Rightarrow> formattedField_opt target | Some v \<Rightarrow> Some v),
      modifiedField_opt =
        (case modifiedField_opt source of None \<Rightarrow> modifiedField_opt target | Some v \<Rightarrow> Some v)\<rparr>"

definition Object_assign :: "partialSettings \<Rightarrow> partialSettings option list \<Rightarrow> partialSettings" where
  "Object_assign target sources =
     foldl (\<lambda>t src. case src of None \<Rightarrow> t | Some s \<Rightarrow> copyProperties t s) target sources"

text \<open>\<^verbatim>\<open>loadSettings\<close>: the object it assigns to \<^verbatim>\<open>this.settings\<close>, given what \<^verbatim>\<open>loadData()\<close> answers.\<close>

definition loadSettings :: "partialSettings option \<Rightarrow> partialSettings" where
  "loadSettings loadData =
     Object_assign emptyObject [Some (asObject DEFAULT_SETTINGS), loadData]"

text \<open>\<^verbatim>\<open>s.split(sep)\<close> with a one-character separator.\<close>

fun splitOn :: "char \<Rightarrow> string \<Rightarrow> string list" where
  "splitOn sep [] = [[]]"
| "splitOn sep (c # cs) =
     (if c = sep then [] # splitOn sep cs
      else (case splitOn sep cs of [] \<Rightarrow> [[c]] | x # xs \<Rightarrow> (c # x) # xs))"

text \<open>
  The four \<^verbatim>\<open>onChange\<close> handlers of the settings tab: each assigns one field of
  \<^verbatim>\<open>plugin.settings\<close> at once, calls \<^verbatim>\<open>saveSettings\<close> and awaits it.
\<close>

definition onDotColorChange :: "string \<Rightarrow> plugin \<Rightarrow> plugin" where
  "onDotColorChange v st = saveSettings (st\<lparr>settings := (settings st)\<lparr>dotColor := v\<rparr>\<rparr>)"

definition onIncludedFoldersChange :: "string \<Rightarrow> plugin \<Rightarrow> plugin" where
  "onIncludedFoldersChange v st =
     saveSettings
       (st\<lparr>settings := (settings st)
           \<lparr>includedFolders := filter (\<lambda>f. 0 < length f) (map trim (splitOn (CHR 0x0A) v))\<rparr>\<rparr>)"

definition onFormattedFieldChange :: "string \<Rightarrow> plugin \<Rightarrow> plugin" where
  "onFormattedFieldChange v st =
     (let trimmed = trim v
      in saveSettings
           (st\<lparr>settings := (settings st)
               \<lparr>formattedField :=
                  (if 0 < length trimmed then trimmed else formattedField DEFAULT_SETTINGS)\<rparr>\<rparr>))"

definition onModifiedFieldChange :: "string \<Rightarrow> plugin \<Rightarrow> plugin" where
  "onModifiedFieldChange v st =
     (let trimmed = trim v
      in saveSettings
           (st\<lparr>settings := (settings st)
               \<lparr>modifiedField :=
                  (if 0 < length trimmed then trimmed else modifiedField DEFAULT_SETTINGS)\<rparr>\<rparr>))"

section \<open>Runs of the plugin\<close>

text \<open>
  What can happen to a loaded plugin, one event at a time (the host delivers its events
  in sequence, and a handler runs until it ends or is suspended at an \<^verbatim>\<open>await\<close>). The
  host's cache entry of a path changes when the host reports the change for that path;
  what \<^verbatim>\<open>getMarkdownFiles\<close> lists may change at any time.
\<close>

datatype event =
    LayoutReady
  | MetadataChanged path cachedMetadata
  | LayoutChange
  | VaultDelete abstractFile
  | VaultRename abstractFile path
  | DotColorPicked string
  | FoldersEdited string
  | FormattedFieldEdited string
  | ModifiedFieldEdited string
  | SaveDataSettled settlement
  | VaultListing "path list"
  | TimePasses nat

fun deliver :: "event \<Rightarrow> host \<times> plugin \<Rightarrow> host \<times> plugin" where
  "deliver LayoutReady (h, st) = (h, onLayoutReady h st)"
| "deliver (MetadataChanged file c) (h, st) =
     (let h' = h\<lparr>getFileCache := (getFileCache h)(file := Some c)\<rparr>
      in (h', onChanged h' file st))"
| "deliver LayoutChange (h, st) = (h, onLayoutChange st)"
| "deliver (VaultDelete af) (h, st) = (h, onDelete af st)"
| "deliver (VaultRename af oldPath) (h, st) = (h, onRename h af oldPath st)"
| "deliver (DotColorPicked v) (h, st) = (h, onDotColorChange v st)"
| "deliver (FoldersEdited v) (h, st) = (h, onIncludedFoldersChange v st)"
| "deliver (FormattedFieldEdited v) (h, st) = (h, onFormattedFieldChange v st)"
| "deliver (ModifiedFieldEdited v) (h, st) = (h, onModifiedFieldChange v st)"
| "deliver (SaveDataSettled r) (h, st) = (h, saveDataSettled h r st)"
| "deliver (VaultListing fs) (h, st) = (h\<lparr>getMarkdownFiles := fs\<rparr>, st)"
| "deliver (TimePasses d) (h, st) = (h, elapse d st)"

definition run :: "event list \<Rightarrow> host \<times> plugin \<Rightarrow> host \<times> plugin" where
  "run evs w = foldl (\<lambda>w' e. deliver e w') w evs"

text \<open>
  A burst of calls of \<^verbatim>\<open>scheduleApplyDecorations\<close>: a first call, and after each of the
  given gaps another one.
\<close>

definition burst :: "nat list \<Rightarrow> event list" where
  "burst gaps = LayoutChange # concat (map (\<lambda>g. [TimePasses g, LayoutChange]) gaps)"

section \<open>Notions of the specification\<close>

text \<open>
  The frontmatter of the path has both fields parseable, with the formatted timestamp at
  or after the modified one.
\<close>

definition formattedUpToDate :: "host \<Rightarrow> settings \<Rightarrow> path \<Rightarrow> bool" where
  "formattedUpToDate h s p =
     (case getFileCache h p of
        None \<Rightarrow> False
      | Some c \<Rightarrow>
          (case frontmatter c of
             None \<Rightarrow> False
           | Some fm \<Rightarrow>
               (case (toMs h (field fm (formattedField s)), toMs h (field fm (modifiedField s))) of
                  (Some f, Some m) \<Rightarrow> m \<le> f
                | _ \<Rightarrow> False)))"

text \<open>The number of dots shown on the rendered items of a path.\<close>

definition dotsShown :: "path \<Rightarrow> plugin \<Rightarrow> nat" where
  "dotsShown p st = sum_list (map snd (filter (\<lambda>(q, n). q = p) (navFileTitles st)))"

text \<open>
  The outcome "does not need formatting": the path is not tracked, and no marker is
  shown for it once the decorations are applied.
\<close>

definition notMarked :: "path \<Rightarrow> plugin \<Rightarrow> bool" where
  "notMarked p st = (p \<notin> needsFormatPaths st \<and> dotsShown p (applyDecorations st) = 0)"

text \<open>The stored value of a property when there is one, the default otherwise.\<close>

definition storedOrDefault ::
  "partialSettings option \<Rightarrow> (partialSettings \<Rightarrow> 'a option) \<Rightarrow> 'a \<Rightarrow> 'a" where
  "storedOrDefault blob property dflt =
     (case blob of
        None \<Rightarrow> dflt
      | Some b \<Rightarrow> (case property b of None \<Rightarrow> dflt | Some v \<Rightarrow> v))"

text \<open>The two field names exchanged.\<close>

definition swapFields :: "settings \<Rightarrow> settings" where
  "swapFields s = s\<lparr>formattedField := modifiedField s, modifiedField := formattedField s\<rparr>"

text \<open>The local time value of a date and time of day.\<close>

definition localTime :: "int \<Rightarrow> nat \<Rightarrow> nat \<Rightarrow> nat \<Rightarrow> nat \<Rightarrow> int" where
  "localTime y m d hh mi = MakeDate (MakeDay y m d) (MakeTime hh mi)"

text \<open>
  The event assigns one of the settings the comparison reads: the folders or one of the
  two field names.
\<close>

fun assignsSetting :: "event \<Rightarrow> bool" where
  "assignsSetting (FoldersEdited v) = True"
| "assignsSetting (FormattedFieldEdited v) = True"
| "assignsSetting (ModifiedFieldEdited v) = True"
| "assignsSetting e = False"

text \<open>
  The event scans the whole vault in the given state: the layout is ready, or a call of
  \<^verbatim>\<open>saveData\<close> resolves while a \<^verbatim>\<open>saveSettings\<close> waits for it.
\<close>

fun rescans :: "event \<Rightarrow> plugin \<Rightarrow> bool" where
  "rescans LayoutReady st = True"
| "rescans (SaveDataSettled Resolved) st = (0 < pendingSaves st)"
| "rescans e st = False"

section \<open>Invariants\<close>

text \<open>
  The verdict of \<^verbatim>\<open>checkFile\<close> on a path: it is in scope, its cache entry has frontmatter,
  and the predicate holds of the two values read from it.
\<close>

definition verdict :: "host \<Rightarrow> settings \<Rightarrow> path \<Rightarrow> bool" where
  "verdict h s p =
     (isInScope s p \<and>
      (case getFileCache h p of
         None \<Rightarrow> False
       | Some c \<Rightarrow>
           (case frontmatter c of
              None \<Rightarrow> False
            | Some fm \<Rightarrow>
                needsFormat (toMs h (field fm (formattedField s)))
                  (toMs h (field fm (modifiedField s))))))"

text \<open>Every tracked path has the verdict of \<^verbatim>\<open>checkFile\<close> under the present cache and settings.\<close>

definition trackedSound :: "host \<Rightarrow> plugin \<Rightarrow> bool" where
  "trackedSound h st = (\<forall>p \<in> needsFormatPaths st. verdict h (settings st) p)"

text \<open>
  The timer table holds no timeout, or the one whose handle \<^verbatim>\<open>debounceTimer\<close> holds; handles
  are positive.
\<close>

definition debounceInv :: "plugin \<Rightarrow> bool" where
  "debounceInv st =
     (0 < nextHandle st \<and>
      (case timers st of
         [] \<Rightarrow> True
       | [(k, due)] \<Rightarrow> debounceTimer st = Some k \<and> 0 < k
       | _ \<Rightarrow> False))"

text \<open>One timeout is pending, set at the present time, and \<^verbatim>\<open>debounceTimer\<close> holds its handle.\<close>

definition armed :: "plugin \<Rightarrow> bool" where
  "armed st =
     (0 < nextHandle st \<and>
      (case timers st of
         [(k, due)] \<Rightarrow> debounceTimer st = Some k \<and> 0 < k \<and> due = now st + 50
       | _ \<Rightarrow> False))"

section \<open>Concrete inputs\<close>

text \<open>A plugin object as constructed, before any event: nothing tracked, no timer.\<close>

definition constructed :: "settings \<Rightarrow> (path \<times> nat) list \<Rightarrow> plugin" where
  "constructed s items =
     \<lparr>settings = s, needsFormatPaths = {}, debounceTimer = None, pendingSaves = 0,
      timers = [], nextHandle = 1, now = 0, navFileTitles = items,
      dotColorProperty = None, applyDecorationsRuns = 0\<rparr>"

text \<open>A host in the time zone UTC whose \<^verbatim>\<open>Date.parse\<close> knows no layout but the standard one.\<close>

definition utcHost :: "(path \<Rightarrow> cachedMetadata option) \<Rightarrow> path list \<Rightarrow> host" where
  "utcHost cache files =
     \<lparr>getFileCache = cache, getMarkdownFiles = files,
      LocalTZA = (\<lambda>t. 0), implParse = (\<lambda>s. None)\<rparr>"

text \<open>
  A cache that knows one path; the two frontmatters of the specification's example, one
  with no formatted field, one whose formatted value does not parse, and one with no
  modified field.
\<close>

definition cacheOf :: "path \<Rightarrow> frontmatter option \<Rightarrow> path \<Rightarrow> cachedMetadata option" where
  "cacheOf p fmo = (\<lambda>q. if q = p then Some \<lparr>frontmatter = fmo\<rparr> else None)"

definition fmStale :: frontmatter where
  "fmStale =
     [''modified'' \<mapsto> StringVal ''2026-01-15 09:30'',
      ''formatted'' \<mapsto> StringVal ''2026-01-14 18:00'']"

definition fmFresh :: frontmatter where
  "fmFresh =
     [''modified'' \<mapsto> StringVal ''2026-01-14 18:00'',
      ''formatted'' \<mapsto> StringVal ''2026-01-15 09:30'']"

definition fmUnformatted :: frontmatter where
  "fmUnformatted = [''modified'' \<mapsto> StringVal ''2026-01-15 09:30'']"

definition fmGarbled :: frontmatter where
  "fmGarbled =
     [''modified'' \<mapsto> StringVal ''2026-01-15 09:30'',
      ''formatted'' \<mapsto> StringVal ''yesterday'']"

definition fmUnmodified :: frontmatter where
  "fmUnmodified = [''formatted'' \<mapsto> StringVal ''2026-01-14 18:00'']"

text \<open>
  A vault with one stale note, and a short history: the first scan, a second note
  reported without a formatted field, and the first note renamed.
\<close>

definition sampleHost :: host where
  "sampleHost = utcHost (cacheOf ''a.md'' (Some fmStale)) [''a.md'']"

definition sampleEvents :: "event list" where
  "sampleEvents =
     [LayoutReady,
      MetadataChanged ''b.md'' \<lparr>frontmatter = Some fmUnformatted\<rparr>,
      VaultRename (TFile ''c.md'') ''a.md'']"

text \<open>
  A history in which the folders are edited and the save resolves, and what follows it
  with no further edit of the folders or field names.
\<close>

definition sampleSettled :: "event list" where
  "sampleSettled = [LayoutReady, FoldersEdited ''notes'', SaveDataSettled Resolved]"

definition sampleQuiet :: "event list" where
  "sampleQuiet =
     [MetadataChanged ''notes/b.md'' \<lparr>frontmatter = Some fmUnformatted\<rparr>,
      DotColorPicked ''#ffffff'']"

section \<open>Facts about the operations\<close>

lemma trackedDelete_simps [simp]:
  "needsFormatPaths (trackedDelete p st) = needsFormatPaths st - {p}"
  "settings (trackedDelete p st) = settings st"
  "timers (trackedDelete p st) = timers st"
  "debounceTimer (trackedDelete p st) = debounceTimer st"
  "nextHandle (trackedDelete p st) = nextHandle st"
  "now (trackedDelete p st) = now st"
  "pendingSaves (trackedDelete p st) = pendingSaves st"
  "applyDecorationsRuns (trackedDelete p st) = applyDecorationsRuns st"
  "navFileTitles (trackedDelete p st) = navFileTitles st"
  by (simp_all add: trackedDelete_def)

lemma trackedAdd_simps [simp]:
  "needsFormatPaths (trackedAdd p st) = insert p (needsFormatPaths st)"
  "settings (trackedAdd p st) = settings st"
  "timers (trackedAdd p st) = timers st"
  "debounceTimer (trackedAdd p st) = debounceTimer st"
  "nextHandle (trackedAdd p st) = nextHandle st"
  "now (trackedAdd p st) = now st"
  "pendingSaves (trackedAdd p st) = pendingSaves st"
  "applyDecorationsRuns (trackedAdd p st) = applyDecorationsRuns st"
  "navFileTitles (trackedAdd p st) = navFileTitles st"
  by (simp_all add: trackedAdd_def)

lemma checkFile_cases:
  "checkFile h p st = (if verdict h (settings st) p then trackedAdd p st else trackedDelete p st)"
  by (simp add: checkFile_def verdict_def Let_def split: option.splits)

lemma checkFile_paths:
  "needsFormatPaths (checkFile h p st) =
     (if verdict h (settings st) p then insert p (needsFormatPaths st)
      else needsFormatPaths st - {p})"
  by (simp add: checkFile_cases)

lemma checkFile_frame [simp]:
  "settings (checkFile h p st) = settings st"
  "timers (checkFile h p st) = timers st"
  "debounceTimer (checkFile h p st) = debounceTimer st"
  "nextHandle (checkFile h p st) = nextHandle st"
  "now (checkFile h p st) = now st"
  "pendingSaves (checkFile h p st) = pendingSaves st"
  "applyDecorationsRuns (checkFile h p st) = applyDecorationsRuns st"
  "navFileTitles (checkFile h p st) = navFileTitles st"
  by (simp_all add: checkFile_cases)

lemma applyDecorations_frame [simp]:
  "needsFormatPaths (applyDecorations st) = needsFormatPaths st"
  "settings (applyDecorations st) = settings st"
  "timers (applyDecorations st) = timers st"
  "debounceTimer (applyDecorations st) = debounceTimer st"
  "nextHandle (applyDecorations st) = nextHandle st"
  "now (applyDecorations st) = now st"
  "pendingSaves (applyDecorations st) = pendingSaves st"
  "dotColorProperty (applyDecorations st) = dotColorProperty st"
  "applyDecorationsRuns (applyDecorations st) = Suc (applyDecorationsRuns st)"
  by (simp_all add: applyDecorations_def)

lemma dotsShown_applyDecorations:
  "dotsShown p (applyDecorations st) =
     (if p \<noteq> [] \<and> p \<in> needsFormatPaths st
      then length (filter (\<lambda>(q, n). q = p) (navFileTitles st)) else 0)"
proof -
  have "sum_list (map snd (filter (\<lambda>(q, n). q = p)
          (map (\<lambda>(q, dots). (q, if q \<noteq> [] \<and> q \<in> S then 1 else 0)) items)))
        = (if p \<noteq> [] \<and> p \<in> S then length (filter (\<lambda>(q, n). q = p) items) else 0)"
    for S :: "path set" and items :: "(path \<times> nat) list"
    by (induction items) auto
  then show ?thesis
    by (simp add: dotsShown_def applyDecorations_def)
qed

lemma notMarked_iff: "notMarked p st = (p \<notin> needsFormatPaths st)"
  by (auto simp: notMarked_def dotsShown_applyDecorations)

lemma constructed_simps [simp]:
  "settings (constructed s items) = s"
  "needsFormatPaths (constructed s items) = {}"
  "debounceTimer (constructed s items) = None"
  "timers (constructed s items) = []"
  "nextHandle (constructed s items) = 1"
  "now (constructed s items) = 0"
  "pendingSaves (constructed s items) = 0"
  "applyDecorationsRuns (constructed s items) = 0"
  "navFileTitles (constructed s items) = items"
  by (simp_all add: constructed_def)

lemma utcHost_simps [simp]:
  "getFileCache (utcHost cache files) = cache"
  "getMarkdownFiles (utcHost cache files) = files"
  "LocalTZA (utcHost cache files) t = 0"
  "implParse (utcHost cache files) s = None"
  by (simp_all add: utcHost_def)

lemma default_fields [simp]:
  "formattedField DEFAULT_SETTINGS = ''formatted''"
  "modifiedField DEFAULT_SETTINGS = ''modified''"
  "includedFolders DEFAULT_SETTINGS = []"
  "dotColor DEFAULT_SETTINGS = ''#f59e0b''"
  by (simp_all add: DEFAULT_SETTINGS_def)

lemma inScope_default [simp]: "isInScope DEFAULT_SETTINGS p"
  by (simp add: isInScope_def DEFAULT_SETTINGS_def)

lemma endsWith_slash: "endsWith folder ''/'' = (folder \<noteq> [] \<and> last folder = CHR ''/'')"
  by (cases folder rule: rev_cases) (auto simp: endsWith_def)

lemma isInScope_swapFields [simp]: "isInScope (swapFields s) p = isInScope s p"
  by (simp add: isInScope_def swapFields_def)

lemma swapFields_simps [simp]:
  "formattedField (swapFields s) = modifiedField s"
  "modifiedField (swapFields s) = formattedField s"
  by (simp_all add: swapFields_def)

lemma clearTimeout_frame [simp]:
  "needsFormatPaths (clearTimeout k st) = needsFormatPaths st"
  "settings (clearTimeout k st) = settings st"
  "debounceTimer (clearTimeout k st) = debounceTimer st"
  "nextHandle (clearTimeout k st) = nextHandle st"
  "now (clearTimeout k st) = now st"
  "pendingSaves (clearTimeout k st) = pendingSaves st"
  "applyDecorationsRuns (clearTimeout k st) = applyDecorationsRuns st"
  "navFileTitles (clearTimeout k st) = navFileTitles st"
  "timers (clearTimeout k st) = filter (\<lambda>(k', due). k' \<noteq> k) (timers st)"
  by (simp_all add: clearTimeout_def)

lemma scheduleApplyDecorations_frame [simp]:
  "needsFormatPaths (scheduleApplyDecorations st) = needsFormatPaths st"
  "settings (scheduleApplyDecorations st) = settings st"
  "now (scheduleApplyDecorations st) = now st"
  "pendingSaves (scheduleApplyDecorations st) = pendingSaves st"
  "applyDecorationsRuns (scheduleApplyDecorations st) = applyDecorationsRuns st"
  "navFileTitles (scheduleApplyDecorations st) = navFileTitles st"
  by (simp_all add: scheduleApplyDecorations_def setTimeout_def Let_def split: option.splits)

lemma scheduleApplyDecorations_timers:
  "timers (scheduleApplyDecorations st) =
     (case debounceTimer st of
        None \<Rightarrow> timers st
      | Some k \<Rightarrow> if k \<noteq> 0 then filter (\<lambda>(k', due). k' \<noteq> k) (timers st) else timers st)
     @ [(nextHandle st, now st + 50)]"
  "debounceTimer (scheduleApplyDecorations st) = Some (nextHandle st)"
  "nextHandle (scheduleApplyDecorations st) = Suc (nextHandle st)"
  by (simp_all add: scheduleApplyDecorations_def setTimeout_def Let_def split: option.splits)

lemma debounceCallback_frame [simp]:
  "needsFormatPaths (debounceCallback st) = needsFormatPaths st"
  "settings (debounceCallback st) = settings st"
  "timers (debounceCallback st) = timers st"
  "nextHandle (debounceCallback st) = nextHandle st"
  "now (debounceCallback st) = now st"
  "pendingSaves (debounceCallback st) = pendingSaves st"
  "debounceTimer (debounceCallback st) = None"
  "applyDecorationsRuns (debounceCallback st) = Suc (applyDecorationsRuns st)"
  "navFileTitles (debounceCallback st) = navFileTitles (applyDecorations st)"
  by (simp_all add: debounceCallback_def)

lemma callbacks_frame:
  "needsFormatPaths (foldl (\<lambda>s kt. debounceCallback s) st due) = needsFormatPaths st"
  "settings (foldl (\<lambda>s kt. debounceCallback s) st due) = settings st"
  "timers (foldl (\<lambda>s kt. debounceCallback s) st due) = timers st"
  "nextHandle (foldl (\<lambda>s kt. debounceCallback s) st due) = nextHandle st"
  "now (foldl (\<lambda>s kt. debounceCallback s) st due) = now st"
  "pendingSaves (foldl (\<lambda>s kt. debounceCallback s) st due) = pendingSaves st"
  "applyDecorationsRuns (foldl (\<lambda>s kt. debounceCallback s) st due) = applyDecorationsRuns st + length due"
  "debounceTimer (foldl (\<lambda>s kt. debounceCallback s) st due)
     = (if due = [] then debounceTimer st else None)"
  by (induction due arbitrary: st; simp)+

lemma elapse_frame [simp]:
  "needsFormatPaths (elapse d st) = needsFormatPaths st"
  "settings (elapse d st) = settings st"
  "nextHandle (elapse d st) = nextHandle st"
  "now (elapse d st) = now st + d"
  "pendingSaves (elapse d st) = pendingSaves st"
  by (simp_all add: elapse_def Let_def callbacks_frame)

lemma elapse_timers:
  "timers (elapse d st) = filter (\<lambda>(k, t). \<not> t \<le> now st + d) (timers st)"
  "applyDecorationsRuns (elapse d st)
     = applyDecorationsRuns st + length (filter (\<lambda>(k, t). t \<le> now st + d) (timers st))"
  "debounceTimer (elapse d st)
     = (if filter (\<lambda>(k, t). t \<le> now st + d) (timers st) = [] then debounceTimer st else None)"
  by (simp_all add: elapse_def Let_def callbacks_frame)

lemma checks_frame:
  "settings (foldl (\<lambda>s file. checkFile h file s) st fs) = settings st"
  "timers (foldl (\<lambda>s file. checkFile h file s) st fs) = timers st"
  "debounceTimer (foldl (\<lambda>s file. checkFile h file s) st fs) = debounceTimer st"
  "nextHandle (foldl (\<lambda>s file. checkFile h file s) st fs) = nextHandle st"
  "now (foldl (\<lambda>s file. checkFile h file s) st fs) = now st"
  "pendingSaves (foldl (\<lambda>s file. checkFile h file s) st fs) = pendingSaves st"
  "applyDecorationsRuns (foldl (\<lambda>s file. checkFile h file s) st fs) = applyDecorationsRuns st"
  "navFileTitles (foldl (\<lambda>s file. checkFile h file s) st fs) = navFileTitles st"
  by (induction fs arbitrary: st; simp)+

lemma checks_paths:
  "needsFormatPaths (foldl (\<lambda>s file. checkFile h file s) st fs)
     = (needsFormatPaths st - set fs) \<union> {f \<in> set fs. verdict h (settings st) f}"
  by (induction fs arbitrary: st) (auto simp: checkFile_paths)

lemma scanAllFiles_paths:
  "needsFormatPaths (scanAllFiles h st) = {f \<in> set (getMarkdownFiles h). verdict h (settings st) f}"
  by (simp add: scanAllFiles_def checks_paths)

lemma scanAllFiles_frame [simp]:
  "settings (scanAllFiles h st) = settings st"
  "timers (scanAllFiles h st) = timers st"
  "debounceTimer (scanAllFiles h st) = debounceTimer st"
  "nextHandle (scanAllFiles h st) = nextHandle st"
  "now (scanAllFiles h st) = now st"
  "pendingSaves (scanAllFiles h st) = pendingSaves st"
  "applyDecorationsRuns (scanAllFiles h st) = applyDecorationsRuns st"
  "navFileTitles (scanAllFiles h st) = navFileTitles st"
  by (simp_all add: scanAllFiles_def checks_frame)

lemma updateDotColor_frame [simp]:
  "needsFormatPaths (updateDotColor st) = needsFormatPaths st"
  "settings (updateDotColor st) = settings st"
  "timers (updateDotColor st) = timers st"
  "debounceTimer (updateDotColor st) = debounceTimer st"
  "nextHandle (updateDotColor st) = nextHandle st"
  "now (updateDotColor st) = now st"
  "pendingSaves (updateDotColor st) = pendingSaves st"
  "applyDecorationsRuns (updateDotColor st) = applyDecorationsRuns st"
  "navFileTitles (updateDotColor st) = navFileTitles st"
  by (simp_all add: updateDotColor_def)

lemma saveSettings_frame [simp]:
  "needsFormatPaths (saveSettings st) = needsFormatPaths st"
  "settings (saveSettings st) = settings st"
  "timers (saveSettings st) = timers st"
  "debounceTimer (saveSettings st) = debounceTimer st"
  "nextHandle (saveSettings st) = nextHandle st"
  "now (saveSettings st) = now st"
  "pendingSaves (saveSettings st) = Suc (pendingSaves st)"
  "applyDecorationsRuns (saveSettings st) = applyDecorationsRuns st"
  "navFileTitles (saveSettings st) = navFileTitles st"
  by (simp_all add: saveSettings_def)

lemma saveDataSettled_frame [simp]:
  "settings (saveDataSettled h r st) = settings st"
  "timers (saveDataSettled h r st) = timers st"
  "debounceTimer (saveDataSettled h r st) = debounceTimer st"
  "nextHandle (saveDataSettled h r st) = nextHandle st"
  "now (saveDataSettled h r st) = now st"
  "pendingSaves (saveDataSettled h r st) = pendingSaves st - 1"
  by (cases r; simp add: saveDataSettled_def Let_def)+

lemma saveDataSettled_paths:
  "needsFormatPaths (saveDataSettled h Rejected st) = needsFormatPaths st"
  "needsFormatPaths (saveDataSettled h Resolved st) =
     (if pendingSaves st = 0 then needsFormatPaths st
      else {f \<in> set (getMarkdownFiles h). verdict h (settings st) f})"
  by (simp_all add: saveDataSettled_def Let_def scanAllFiles_paths)

lemma settings_handlers_frame [simp]:
  "needsFormatPaths (onDotColorChange v st) = needsFormatPaths st"
  "needsFormatPaths (onIncludedFoldersChange v st) = needsFormatPaths st"
  "needsFormatPaths (onFormattedFieldChange v st) = needsFormatPaths st"
  "needsFormatPaths (onModifiedFieldChange v st) = needsFormatPaths st"
  "timers (onDotColorChange v st) = timers st"
  "timers (onIncludedFoldersChange v st) = timers st"
  "timers (onFormattedFieldChange v st) = timers st"
  "timers (onModifiedFieldChange v st) = timers st"
  "debounceTimer (onDotColorChange v st) = debounceTimer st"
  "debounceTimer (onIncludedFoldersChange v st) = debounceTimer st"
  "debounceTimer (onFormattedFieldChange v st) = debounceTimer st"
  "debounceTimer (onModifiedFieldChange v st) = debounceTimer st"
  "nextHandle (onDotColorChange v st) = nextHandle st"
  "nextHandle (onIncludedFoldersChange v st) = nextHandle st"
  "nextHandle (onFormattedFieldChange v st) = nextHandle st"
  "nextHandle (onModifiedFieldChange v st) = nextHandle st"
  by (simp_all add: onDotColorChange_def onIncludedFoldersChange_def
      onFormattedFieldChange_def onModifiedFieldChange_def Let_def)

lemma onDotColorChange_settings:
  "includedFolders (settings (onDotColorChange v st)) = includedFolders (settings st)"
  "formattedField (settings (onDotColorChange v st)) = formattedField (settings st)"
  "modifiedField (settings (onDotColorChange v st)) = modifiedField (settings st)"
  by (simp_all add: onDotColorChange_def)

lemma onRename_paths:
  "needsFormatPaths (onRename h (TFile p) oldPath st) =
     (if oldPath \<in> needsFormatPaths st
      then (if verdict h (settings st) p then insert p (needsFormatPaths st - {oldPath})
            else needsFormatPaths st - {oldPath} - {p})
      else needsFormatPaths st)"
  "needsFormatPaths (onRename h (TFolder d) oldPath st) = needsFormatPaths st"
  by (auto simp: onRename_def Let_def checkFile_paths)

lemma onRename_settings [simp]: "settings (onRename h af oldPath st) = settings st"
  by (cases af) (simp_all add: onRename_def Let_def)

lemma onDelete_frame [simp]:
  "settings (onDelete af st) = settings st"
  "needsFormatPaths (onDelete af st) \<subseteq> needsFormatPaths st"
  by (cases af; auto simp: onDelete_def)+

lemma run_Nil [simp]: "run [] w = w"
  by (simp add: run_def)

lemma run_Cons [simp]: "run (e # evs) w = run evs (deliver e w)"
  by (simp add: run_def)

lemma run_append: "run (xs @ ys) w = run ys (run xs w)"
  by (simp add: run_def)

section \<open>Parsing the dates of the example\<close>

lemmas date_defs =
  Date_getTime_def parseLocalDateTime_def readDigits_def isDigit_def digitsValue_def
  DaysInMonth_def MakeDate_def MakeDay_def MakeTime_def DayFromYear_def daysBeforeMonth_def
  InLeapYear_def msPerDay_def localTime_def

lemmas string_defs = trim_def isWhiteSpace_def startsWith_def endsWith_def suffix_def

declare toMs.simps(2) [simp del]

lemma toMs_0115_0930:
  "toMs h (StringVal ''2026-01-15 09:30'')
     = TimeClip (1768469400000 - LocalTZA h 1768469400000)"
  by (simp add: toMs.simps(2) date_defs string_defs TimeClip_def split: option.splits)

lemma toMs_0114_1800:
  "toMs h (StringVal ''2026-01-14 18:00'')
     = TimeClip (1768413600000 - LocalTZA h 1768413600000)"
  by (simp add: toMs.simps(2) date_defs string_defs TimeClip_def split: option.splits)

lemma localTime_values:
  "localTime 2026 1 15 9 30 = 1768469400000" "localTime 2026 1 14 18 0 = 1768413600000"
  by (simp_all add: date_defs)

lemma Date_getTime_host_cache [simp]:
  "Date_getTime (h\<lparr>getFileCache := g\<rparr>) s = Date_getTime h s"
  "Date_getTime (h\<lparr>getMarkdownFiles := fs\<rparr>) s = Date_getTime h s"
  by (simp_all add: Date_getTime_def cong: option.case_cong)

lemma toMs_host_cache [simp]:
  "toMs (h\<lparr>getFileCache := g\<rparr>) v = toMs h v"
  "toMs (h\<lparr>getMarkdownFiles := fs\<rparr>) v = toMs h v"
  by (cases v; simp add: toMs.simps(2))+

lemma example_numeric:
  assumes "\<bar>LocalTZA h 1768469400000\<bar> \<le> 86400000"
    and "\<bar>LocalTZA h 1768413600000\<bar> \<le> 86400000"
    and "LocalTZA h 1768469400000 - LocalTZA h 1768413600000 < 55800000"
  shows "toMs h (StringVal ''2026-01-15 09:30'') = Some (1768469400000 - LocalTZA h 1768469400000)"
    and "toMs h (StringVal ''2026-01-14 18:00'') = Some (1768413600000 - LocalTZA h 1768413600000)"
    and "needsFormat (toMs h (StringVal ''2026-01-14 18:00'')) (toMs h (StringVal ''2026-01-15 09:30''))"
    and "\<not> needsFormat (toMs h (StringVal ''2026-01-15 09:30'')) (toMs h (StringVal ''2026-01-14 18:00''))"
proof -
  show a: "toMs h (StringVal ''2026-01-15 09:30'') = Some (1768469400000 - LocalTZA h 1768469400000)"
    using assms(1) by (simp add: toMs_0115_0930 TimeClip_def)
  show b: "toMs h (StringVal ''2026-01-14 18:00'') = Some (1768413600000 - LocalTZA h 1768413600000)"
    using assms(2) by (simp add: toMs_0114_1800 TimeClip_def)
  show "needsFormat (toMs h (StringVal ''2026-01-14 18:00'')) (toMs h (StringVal ''2026-01-15 09:30''))"
    using assms(3) by (simp add: a b needsFormat_def)
  show "\<not> needsFormat (toMs h (StringVal ''2026-01-15 09:30'')) (toMs h (StringVal ''2026-01-14 18:00''))"
    using assms(3) by (simp add: a b needsFormat_def)
qed

lemma example_fields:
  "field fmStale ''formatted'' = StringVal ''2026-01-14 18:00''"
  "field fmStale ''modified'' = StringVal ''2026-01-15 09:30''"
  "field fmFresh ''formatted'' = StringVal ''2026-01-15 09:30''"
  "field fmFresh ''modified'' = StringVal ''2026-01-14 18:00''"
  by (simp_all add: field_def fmStale_def fmFresh_def)

lemma toMs_yesterday: "toMs (utcHost cache files) (StringVal ''yesterday'') = None"
  by (simp add: toMs.simps(2) string_defs Date_getTime_def parseLocalDateTime_def)

lemma toMs_0115_utc: "toMs (utcHost cache files) (StringVal ''2026-01-15 09:30'') = Some 1768469400000"
  by (simp add: toMs_0115_0930 TimeClip_def)

lemma toMs_0114_utc: "toMs (utcHost cache files) (StringVal ''2026-01-14 18:00'') = Some 1768413600000"
  by (simp add: toMs_0114_1800 TimeClip_def)

lemma unformatted_fields:
  "field fmUnformatted ''formatted'' = Undefined"
  "field fmUnformatted ''modified'' = StringVal ''2026-01-15 09:30''"
  "fmUnformatted ''formatted'' = None"
  by (simp_all add: field_def fmUnformatted_def)

lemma garbled_fields:
  "field fmGarbled ''formatted'' = StringVal ''yesterday''"
  "field fmGarbled ''modified'' = StringVal ''2026-01-15 09:30''"
  by (simp_all add: field_def fmGarbled_def)

lemma unmodified_fields:
  "field fmUnmodified ''formatted'' = StringVal ''2026-01-14 18:00''"
  "field fmUnmodified ''modified'' = Undefined"
  by (simp_all add: field_def fmUnmodified_def)

section \<open>Soundness of the tracked set along a run\<close>

lemma verdict_sound:
  "verdict h s p \<Longrightarrow> isInScope s p \<and> \<not> formattedUpToDate h s p"
  by (auto simp: verdict_def formattedUpToDate_def needsFormat_def split: option.splits)

lemma verdict_listing [simp]: "verdict (h\<lparr>getMarkdownFiles := fs\<rparr>) s p = verdict h s p"
  by (simp add: verdict_def cong: option.case_cong)

lemma verdict_other_path:
  "p \<noteq> file \<Longrightarrow>
   verdict (h\<lparr>getFileCache := (getFileCache h)(file := Some c)\<rparr>) s p = verdict h s p"
  by (simp add: verdict_def cong: option.case_cong)

lemma trackedSound_checkFile: "trackedSound h st \<Longrightarrow> trackedSound h (checkFile h file st)"
  by (simp add: trackedSound_def checkFile_paths)

lemma trackedSound_scan: "trackedSound h (scanAllFiles h st)"
  by (simp add: trackedSound_def scanAllFiles_paths)

lemma verdict_dotColor [simp]: "verdict h (s\<lparr>dotColor := v\<rparr>) p = verdict h s p"
  by (simp add: verdict_def isInScope_def cong: option.case_cong)

lemma trackedSound_changed:
  assumes "trackedSound h st"
  shows "trackedSound (h\<lparr>getFileCache := (getFileCache h)(file := Some c)\<rparr>)
           (onChanged (h\<lparr>getFileCache := (getFileCache h)(file := Some c)\<rparr>) file st)"
proof -
  let ?h = "h\<lparr>getFileCache := (getFileCache h)(file := Some c)\<rparr>"
  have "verdict ?h (settings st) p" if "p \<in> needsFormatPaths st" "p \<noteq> file" for p
    using that assms by (simp add: trackedSound_def verdict_other_path)
  then show ?thesis
    by (auto simp: trackedSound_def onChanged_def checkFile_paths)
qed

lemma trackedSound_settled:
  "trackedSound h st \<Longrightarrow> trackedSound h (saveDataSettled h r st)"
  by (cases r) (simp_all add: trackedSound_def saveDataSettled_paths)

text \<open>An event that assigns none of the settings read by the comparison keeps the set sound.\<close>

lemma trackedSound_deliver:
  "trackedSound h st \<Longrightarrow> \<not> assignsSetting e \<Longrightarrow> deliver e (h, st) = (h', st')
   \<Longrightarrow> trackedSound h' st'"
proof (cases e)
  case LayoutReady
  assume "deliver e (h, st) = (h', st')"
  with LayoutReady show ?thesis
    using trackedSound_scan [of h st] by (auto simp: onLayoutReady_def trackedSound_def)
next
  case (MetadataChanged f c)
  assume "trackedSound h st" "deliver e (h, st) = (h', st')"
  with MetadataChanged show ?thesis
    using trackedSound_changed [of h st f c] by (auto simp: Let_def)
next
  case LayoutChange
  assume "trackedSound h st" "deliver e (h, st) = (h', st')"
  with LayoutChange show ?thesis
    by (auto simp: onLayoutChange_def trackedSound_def)
next
  case (VaultDelete af)
  assume "trackedSound h st" "deliver e (h, st) = (h', st')"
  with VaultDelete show ?thesis
    using onDelete_frame(2) [of af st] by (auto simp: trackedSound_def)
next
  case (VaultRename af oldPath)
  assume "trackedSound h st" "deliver e (h, st) = (h', st')"
  with VaultRename show ?thesis
    by (cases af) (auto simp: trackedSound_def onRename_paths split: if_splits)
next
  case (DotColorPicked v)
  assume "trackedSound h st" "deliver e (h, st) = (h', st')"
  with DotColorPicked show ?thesis
    by (auto simp: trackedSound_def onDotColorChange_def)
next
  case (FoldersEdited v)
  assume "\<not> assignsSetting e"
  with FoldersEdited show ?thesis by simp
next
  case (FormattedFieldEdited v)
  assume "\<not> assignsSetting e"
  with FormattedFieldEdited show ?thesis by simp
next
  case (ModifiedFieldEdited v)
  assume "\<not> assignsSetting e"
  with ModifiedFieldEdited show ?thesis by simp
next
  case (SaveDataSettled r)
  assume "trackedSound h st" "deliver e (h, st) = (h', st')"
  with SaveDataSettled show ?thesis
    using trackedSound_settled [of h st r] by auto
next
  case (VaultListing fs)
  assume "trackedSound h st" "deliver e (h, st) = (h', st')"
  with VaultListing show ?thesis
    by (auto simp: trackedSound_def)
next
  case (TimePasses d)
  assume "trackedSound h st" "deliver e (h, st) = (h', st')"
  with TimePasses show ?thesis
    by (auto simp: trackedSound_def)
qed

text \<open>An event that scans the vault makes the set sound, whatever it held.\<close>

lemma trackedSound_rescan:
  assumes "rescans e st" and "deliver e (h, st) = (h', st')"
  shows "trackedSound h' st'"
proof (cases e)
  case LayoutReady
  with assms(2) show ?thesis
    using trackedSound_scan [of h st] by (auto simp: onLayoutReady_def trackedSound_def)
next
  case (SaveDataSettled r)
  with assms(1) have r: "r = Resolved" "0 < pendingSaves st"
    by (cases r; simp)+
  with SaveDataSettled assms(2) show ?thesis
    by (auto simp: trackedSound_def saveDataSettled_paths)
qed (use assms(1) in simp_all)

lemma trackedSound_run:
  "trackedSound h st \<Longrightarrow> \<forall>e \<in> set evs. \<not> assignsSetting e \<Longrightarrow> run evs (h, st) = (h', st')
   \<Longrightarrow> trackedSound h' st'"
proof (induction evs arbitrary: h st)
  case Nil
  then show ?case by simp
next
  case (Cons e evs)
  obtain h1 st1 where d: "deliver e (h, st) = (h1, st1)"
    by (cases "deliver e (h, st)")
  from Cons.prems(2) have q: "\<not> assignsSetting e" "\<forall>e \<in> set evs. \<not> assignsSetting e"
    by simp_all
  from Cons.prems(1) q(1) d have "trackedSound h1 st1"
    by (rule trackedSound_deliver)
  with Cons.IH [of h1 st1] q(2) Cons.prems(3) d show ?case
    by simp
qed

lemma folders_typed:
  "filter (\<lambda>f. 0 < length f) (map trim (splitOn (CHR 0x0A) ''notes'')) = [''notes'']"
  "filter (\<lambda>f. 0 < length f) (map trim (splitOn (CHR 0x0A) ''References'')) = [''References'']"
  by (simp_all add: trim_def isWhiteSpace_def)

lemma sample_run:
  "needsFormatPaths (snd (run sampleEvents (sampleHost, constructed DEFAULT_SETTINGS items))) = {''b.md''}"
  "settings (snd (run sampleEvents (sampleHost, constructed DEFAULT_SETTINGS items))) = DEFAULT_SETTINGS"
  "getFileCache (fst (run sampleEvents (sampleHost, constructed DEFAULT_SETTINGS items))) ''b.md''
     = Some \<lparr>frontmatter = Some fmUnformatted\<rparr>"
  by (auto simp: sampleEvents_def sampleHost_def Let_def onLayoutReady_def onChanged_def
      onRename_paths onRename_def scanAllFiles_paths checkFile_paths verdict_def cacheOf_def
      example_fields unformatted_fields toMs_0115_utc toMs_0114_utc needsFormat_def)

lemma sample_settled:
  "pendingSaves (snd (run (butlast sampleSettled) (sampleHost, constructed DEFAULT_SETTINGS []))) = 1"
  "needsFormatPaths (snd (run (butlast sampleSettled) (sampleHost, constructed DEFAULT_SETTINGS [])))
     = {''a.md''}"
  "needsFormatPaths (snd (run sampleSettled (sampleHost, constructed DEFAULT_SETTINGS []))) = {}"
  "needsFormatPaths (snd (run (sampleSettled @ sampleQuiet) (sampleHost, constructed DEFAULT_SETTINGS [])))
     = {''notes/b.md''}"
  "includedFolders (settings (snd (run (sampleSettled @ sampleQuiet)
      (sampleHost, constructed DEFAULT_SETTINGS [])))) = [''notes'']"
  by (auto simp: sampleSettled_def sampleQuiet_def sampleHost_def Let_def onLayoutReady_def
      onChanged_def onIncludedFoldersChange_def onDotColorChange_def saveSettings_def
      saveDataSettled_paths folders_typed
      scanAllFiles_paths checkFile_paths verdict_def cacheOf_def isInScope_def string_defs
      example_fields unformatted_fields toMs_0115_utc toMs_0114_utc needsFormat_def)

lemma sample_dom:
  "navFileTitles (snd (run sampleEvents (sampleHost, constructed DEFAULT_SETTINGS [(''b.md'', 0)])))
     = [(''b.md'', 0)]"
  "applyDecorationsRuns
     (snd (run sampleEvents (sampleHost, constructed DEFAULT_SETTINGS [(''b.md'', 0)]))) = 1"
  by (simp_all add: sampleEvents_def sampleHost_def Let_def onLayoutReady_def onChanged_def
      onRename_def applyDecorations_def scanAllFiles_paths verdict_def cacheOf_def
      example_fields toMs_0115_utc toMs_0114_utc needsFormat_def)

section \<open>The timer table along a run\<close>

lemma debounceInv_iff:
  "debounceInv st =
     (0 < nextHandle st \<and>
      (timers st = [] \<or> (\<exists>k due. timers st = [(k, due)] \<and> debounceTimer st = Some k \<and> 0 < k)))"
proof (cases "timers st")
  case Nil
  then show ?thesis by (simp add: debounceInv_def)
next
  case (Cons kd rest)
  then show ?thesis
    by (cases kd; cases rest) (simp_all add: debounceInv_def)
qed

lemma armed_iff:
  "armed st =
     (0 < nextHandle st \<and>
      (\<exists>k. timers st = [(k, now st + 50)] \<and> debounceTimer st = Some k \<and> 0 < k))"
proof (cases "timers st")
  case Nil
  then show ?thesis by (simp add: armed_def)
next
  case (Cons kd rest)
  then show ?thesis
    by (cases kd; cases rest) (auto simp: armed_def)
qed

lemma debounceInv_cong:
  "timers a = timers b \<Longrightarrow> debounceTimer a = debounceTimer b \<Longrightarrow> nextHandle a = nextHandle b
   \<Longrightarrow> debounceInv a = debounceInv b"
  by (simp add: debounceInv_iff)

lemma debounceInv_pending: "debounceInv st \<Longrightarrow> length (timers st) \<le> 1"
  by (auto simp: debounceInv_iff)

lemma armed_debounceInv: "armed st \<Longrightarrow> debounceInv st"
  by (auto simp: armed_iff debounceInv_iff)

lemma debounceInv_schedule: "debounceInv st \<Longrightarrow> armed (scheduleApplyDecorations st)"
  by (auto simp: debounceInv_iff armed_iff scheduleApplyDecorations_timers split: option.splits)

lemma debounceInv_elapse:
  assumes "debounceInv st"
  shows "debounceInv (elapse d st)"
proof (cases "timers st = []")
  case True
  with assms show ?thesis
    by (simp add: debounceInv_iff elapse_timers)
next
  case False
  with assms obtain k due where
    t: "timers st = [(k, due)]" "debounceTimer st = Some k" "0 < k" "0 < nextHandle st"
    by (auto simp: debounceInv_iff)
  then show ?thesis
    by (cases "due \<le> now st + d") (simp_all add: debounceInv_iff elapse_timers)
qed

lemma armed_elapse_short:
  assumes "armed st" and "g < 50"
  shows "debounceInv (elapse g st)"
    and "applyDecorationsRuns (elapse g st) = applyDecorationsRuns st"
    and "navFileTitles (elapse g st) = navFileTitles st"
    and "length (timers (elapse g st)) = 1"
proof -
  from assms(1) obtain k where
    t: "timers st = [(k, now st + 50)]" "debounceTimer st = Some k" "0 < k" "0 < nextHandle st"
    by (auto simp: armed_iff)
  with assms(2) show "debounceInv (elapse g st)"
    by (simp add: debounceInv_iff elapse_timers)
  from t assms(2) show "applyDecorationsRuns (elapse g st) = applyDecorationsRuns st"
    by (simp add: elapse_timers)
  from t assms(2) show "navFileTitles (elapse g st) = navFileTitles st"
    by (simp add: elapse_def Let_def)
  from t assms(2) show "length (timers (elapse g st)) = 1"
    by (simp add: elapse_timers)
qed

lemma navFileTitles_applyDecorations_cong:
  "needsFormatPaths a = needsFormatPaths b \<Longrightarrow> navFileTitles a = navFileTitles b
   \<Longrightarrow> navFileTitles (applyDecorations a) = navFileTitles (applyDecorations b)"
  by (simp add: applyDecorations_def)

lemma armed_elapse_long:
  assumes "armed st" and "50 \<le> d"
  shows "timers (elapse d st) = []"
    and "applyDecorationsRuns (elapse d st) = applyDecorationsRuns st + 1"
    and "navFileTitles (elapse d st) = navFileTitles (applyDecorations st)"
    and "debounceTimer (elapse d st) = None"
proof -
  from assms(1) obtain k where
    t: "timers st = [(k, now st + 50)]" "debounceTimer st = Some k" "0 < k" "0 < nextHandle st"
    by (auto simp: armed_iff)
  with assms(2) show "timers (elapse d st) = []"
    by (simp add: elapse_timers)
  from t assms(2) show "applyDecorationsRuns (elapse d st) = applyDecorationsRuns st + 1"
    by (simp add: elapse_timers)
  from t assms(2) show "debounceTimer (elapse d st) = None"
    by (simp add: elapse_timers)
  from t assms(2) have "navFileTitles (elapse d st)
      = navFileTitles (applyDecorations (st\<lparr>now := now st + d, timers := []\<rparr>))"
    by (simp add: elapse_def Let_def)
  also have "\<dots> = navFileTitles (applyDecorations st)"
    by (rule navFileTitles_applyDecorations_cong) simp_all
  finally show "navFileTitles (elapse d st) = navFileTitles (applyDecorations st)" .
qed

lemma onRename_timers:
  "debounceInv st \<Longrightarrow> debounceInv (onRename h af oldPath st)"
proof (cases af)
  case (TFile p)
  assume inv: "debounceInv st"
  let ?st1 = "trackedDelete oldPath st"
  let ?st2 = "if oldPath \<in> needsFormatPaths st then checkFile h p ?st1 else ?st1"
  have "debounceInv ?st2 = debounceInv st"
    by (rule debounceInv_cong) simp_all
  with inv have "armed (scheduleApplyDecorations ?st2)"
    by (simp add: debounceInv_schedule)
  with TFile show ?thesis
    by (simp add: onRename_def Let_def armed_debounceInv)
next
  case (TFolder d)
  assume "debounceInv st"
  with TFolder show ?thesis
    by (simp add: onRename_def)
qed

lemma debounceInv_deliver:
  assumes "debounceInv st"
  shows "debounceInv (snd (deliver e (h, st)))"
proof (cases e)
  case LayoutReady
  have "debounceInv (onLayoutReady h st) = debounceInv st"
    by (rule debounceInv_cong) (simp_all add: onLayoutReady_def)
  with assms LayoutReady show ?thesis by simp
next
  case (MetadataChanged f c)
  let ?h = "h\<lparr>getFileCache := (getFileCache h)(f := Some c)\<rparr>"
  have "debounceInv (checkFile ?h f st) = debounceInv st"
    by (rule debounceInv_cong) simp_all
  with assms have "armed (onChanged ?h f st)"
    by (simp add: onChanged_def debounceInv_schedule)
  with MetadataChanged show ?thesis
    by (simp add: Let_def armed_debounceInv)
next
  case LayoutChange
  with assms show ?thesis
    by (simp add: onLayoutChange_def debounceInv_schedule armed_debounceInv)
next
  case (VaultDelete af)
  have "debounceInv (onDelete af st) = debounceInv st"
    by (rule debounceInv_cong) (cases af; simp add: onDelete_def)+
  with assms VaultDelete show ?thesis by simp
next
  case (VaultRename af oldPath)
  with assms show ?thesis
    by (simp add: onRename_timers)
next
  case (DotColorPicked v)
  have "debounceInv (onDotColorChange v st) = debounceInv st"
    by (rule debounceInv_cong) simp_all
  with assms DotColorPicked show ?thesis by simp
next
  case (FoldersEdited v)
  have "debounceInv (onIncludedFoldersChange v st) = debounceInv st"
    by (rule debounceInv_cong) simp_all
  with assms FoldersEdited show ?thesis by simp
next
  case (FormattedFieldEdited v)
  have "debounceInv (onFormattedFieldChange v st) = debounceInv st"
    by (rule debounceInv_cong) simp_all
  with assms FormattedFieldEdited show ?thesis by simp
next
  case (ModifiedFieldEdited v)
  have "debounceInv (onModifiedFieldChange v st) = debounceInv st"
    by (rule debounceInv_cong) simp_all
  with assms ModifiedFieldEdited show ?thesis by simp
next
  case (SaveDataSettled r)
  have "debounceInv (saveDataSettled h r st) = debounceInv st"
    by (rule debounceInv_cong) simp_all
  with assms SaveDataSettled show ?thesis by simp
next
  case (VaultListing fs)
  with assms show ?thesis by simp
next
  case (TimePasses d)
  with assms show ?thesis
    by (simp add: debounceInv_elapse)
qed

lemma debounceInv_run: "debounceInv st \<Longrightarrow> debounceInv (snd (run evs (h, st)))"
proof (induction evs arbitrary: h st)
  case Nil
  then show ?case by simp
next
  case (Cons e evs)
  from Cons.prems have "debounceInv (snd (deliver e (h, st)))"
    by (rule debounceInv_deliver)
  with Cons.IH [of "snd (deliver e (h, st))" "fst (deliver e (h, st))"] show ?case
    by simp
qed

lemma burst_Nil: "burst [] = [LayoutChange]"
  by (simp add: burst_def)

lemma burst_Cons: "burst (g # gs) = LayoutChange # TimePasses g # burst gs"
  by (simp add: burst_def)

lemma burst_armed:
  "debounceInv st \<Longrightarrow> \<forall>g \<in> set gaps. g < 50 \<Longrightarrow>
   armed (snd (run (burst gaps) (h, st)))
   \<and> applyDecorationsRuns (snd (run (burst gaps) (h, st))) = applyDecorationsRuns st
   \<and> navFileTitles (snd (run (burst gaps) (h, st))) = navFileTitles st
   \<and> needsFormatPaths (snd (run (burst gaps) (h, st))) = needsFormatPaths st"
proof (induction gaps arbitrary: st)
  case Nil
  then show ?case
    by (simp add: burst_Nil onLayoutChange_def debounceInv_schedule)
next
  case (Cons g gs)
  let ?st1 = "scheduleApplyDecorations st"
  from Cons.prems have a: "armed ?st1"
    by (simp add: debounceInv_schedule)
  from Cons.prems have "g < 50" by simp
  with a have e: "debounceInv (elapse g ?st1)"
    "applyDecorationsRuns (elapse g ?st1) = applyDecorationsRuns st"
    "navFileTitles (elapse g ?st1) = navFileTitles st"
    using armed_elapse_short [of ?st1 g] by simp_all
  from Cons.prems have "\<forall>g \<in> set gs. g < 50" by simp
  with Cons.IH [OF e(1)] e(2,3) show ?case
    by (simp add: burst_Cons onLayoutChange_def)
qed

section \<open>C1: failure modes\<close>

text \<open>
  C1, as amended. A path outside the configured folders, a missing cache entry, a cache
  entry with no frontmatter, and a modified value that is missing or does not parse
  beside a formatted value that does, all resolve \<^verbatim>\<open>checkFile\<close> to "does not need
  formatting": the path is not tracked and no marker is shown for it. A formatted value
  that is missing or does not parse, in an in-scope file that has frontmatter, resolves
  it to "needs formatting": the path is tracked.
\<close>

theorem checkFile_failure_modes:
  "(\<not> isInScope (settings st) p \<longrightarrow> notMarked p (checkFile h p st))
   \<and> (getFileCache h p = None \<longrightarrow> notMarked p (checkFile h p st))
   \<and> (getFileCache h p = Some c \<and> frontmatter c = None \<longrightarrow> notMarked p (checkFile h p st))
   \<and> (getFileCache h p = Some c \<and> frontmatter c = Some fm
        \<and> toMs h (field fm (formattedField (settings st))) \<noteq> None
        \<and> toMs h (field fm (modifiedField (settings st))) = None
      \<longrightarrow> notMarked p (checkFile h p st))
   \<and> (isInScope (settings st) p \<and> getFileCache h p = Some c \<and> frontmatter c = Some fm
        \<and> toMs h (field fm (formattedField (settings st))) = None
      \<longrightarrow> p \<in> needsFormatPaths (checkFile h p st))"
  by (auto simp: notMarked_iff checkFile_paths verdict_def needsFormat_def)

text \<open>One file for each of the five cases.\<close>

theorem checkFile_failure_modes_witness:
  "\<not> isInScope (DEFAULT_SETTINGS\<lparr>includedFolders := [''References'']\<rparr>) ''note.md''
   \<and> notMarked ''note.md''
        (checkFile (utcHost (cacheOf ''note.md'' (Some fmStale)) []) ''note.md''
           ((constructed (DEFAULT_SETTINGS\<lparr>includedFolders := [''References'']\<rparr>) [])
              \<lparr>needsFormatPaths := {''note.md''}\<rparr>))
   \<and> getFileCache (utcHost (cacheOf ''other.md'' (Some fmStale)) []) ''note.md'' = None
   \<and> notMarked ''note.md''
        (checkFile (utcHost (cacheOf ''other.md'' (Some fmStale)) []) ''note.md''
           ((constructed DEFAULT_SETTINGS [])\<lparr>needsFormatPaths := {''note.md''}\<rparr>))
   \<and> getFileCache (utcHost (cacheOf ''note.md'' None) []) ''note.md'' = Some \<lparr>frontmatter = None\<rparr>
   \<and> notMarked ''note.md''
        (checkFile (utcHost (cacheOf ''note.md'' None) []) ''note.md''
           ((constructed DEFAULT_SETTINGS [])\<lparr>needsFormatPaths := {''note.md''}\<rparr>))
   \<and> toMs (utcHost (cacheOf ''note.md'' (Some fmUnmodified)) [])
        (field fmUnmodified ''formatted'') = Some 1768413600000
   \<and> toMs (utcHost (cacheOf ''note.md'' (Some fmUnmodified)) [])
        (field fmUnmodified ''modified'') = None
   \<and> notMarked ''note.md''
        (checkFile (utcHost (cacheOf ''note.md'' (Some fmUnmodified)) []) ''note.md''
           ((constructed DEFAULT_SETTINGS [])\<lparr>needsFormatPaths := {''note.md''}\<rparr>))
   \<and> toMs (utcHost (cacheOf ''note.md'' (Some fmGarbled)) [])
        (field fmGarbled ''formatted'') = None
   \<and> ''note.md'' \<in> needsFormatPaths
        (checkFile (utcHost (cacheOf ''note.md'' (Some fmGarbled)) []) ''note.md''
           (constructed DEFAULT_SETTINGS []))"
proof -
  let ?scoped = "(constructed (DEFAULT_SETTINGS\<lparr>includedFolders := [''References'']\<rparr>) [])
                   \<lparr>needsFormatPaths := {''note.md''}\<rparr>"
  let ?tracked = "(constructed DEFAULT_SETTINGS [])\<lparr>needsFormatPaths := {''note.md''}\<rparr>"
  have m1: "\<not> isInScope (settings ?scoped) ''note.md''"
    by (simp add: isInScope_def string_defs)
  have m2: "getFileCache (utcHost (cacheOf ''other.md'' (Some fmStale)) []) ''note.md'' = None"
    by (simp add: cacheOf_def)
  have m3: "getFileCache (utcHost (cacheOf ''note.md'' None) []) ''note.md'' = Some \<lparr>frontmatter = None\<rparr>
            \<and> frontmatter \<lparr>frontmatter = None\<rparr> = None"
    by (simp add: cacheOf_def)
  have m4: "getFileCache (utcHost (cacheOf ''note.md'' (Some fmUnmodified)) []) ''note.md''
              = Some \<lparr>frontmatter = Some fmUnmodified\<rparr>
            \<and> frontmatter \<lparr>frontmatter = Some fmUnmodified\<rparr> = Some fmUnmodified
            \<and> toMs (utcHost (cacheOf ''note.md'' (Some fmUnmodified)) [])
                 (field fmUnmodified (formattedField (settings ?tracked))) \<noteq> None
            \<and> toMs (utcHost (cacheOf ''note.md'' (Some fmUnmodified)) [])
                 (field fmUnmodified (modifiedField (settings ?tracked))) = None"
    by (simp add: cacheOf_def unmodified_fields toMs_0114_utc)
  have m5: "isInScope (settings (constructed DEFAULT_SETTINGS [])) ''note.md''
            \<and> getFileCache (utcHost (cacheOf ''note.md'' (Some fmGarbled)) []) ''note.md''
                = Some \<lparr>frontmatter = Some fmGarbled\<rparr>
            \<and> frontmatter \<lparr>frontmatter = Some fmGarbled\<rparr> = Some fmGarbled
            \<and> toMs (utcHost (cacheOf ''note.md'' (Some fmGarbled)) [])
                 (field fmGarbled (formattedField (settings (constructed DEFAULT_SETTINGS [])))) = None"
    by (simp add: cacheOf_def garbled_fields toMs_yesterday)
  note modes = checkFile_failure_modes
  from m1 modes [of ?scoped "''note.md''"]
  have c1: "notMarked ''note.md''
        (checkFile (utcHost (cacheOf ''note.md'' (Some fmStale)) []) ''note.md'' ?scoped)"
    by blast
  from m2 modes [of _ "''note.md''" "utcHost (cacheOf ''other.md'' (Some fmStale)) []"]
  have c2: "notMarked ''note.md''
        (checkFile (utcHost (cacheOf ''other.md'' (Some fmStale)) []) ''note.md'' ?tracked)"
    by blast
  from m3 modes [of _ "''note.md''" "utcHost (cacheOf ''note.md'' None) []" "\<lparr>frontmatter = None\<rparr>"]
  have c3: "notMarked ''note.md''
        (checkFile (utcHost (cacheOf ''note.md'' None) []) ''note.md'' ?tracked)"
    by blast
  from m4 modes [of ?tracked "''note.md''" "utcHost (cacheOf ''note.md'' (Some fmUnmodified)) []"
      "\<lparr>frontmatter = Some fmUnmodified\<rparr>" fmUnmodified]
  have c4: "notMarked ''note.md''
        (checkFile (utcHost (cacheOf ''note.md'' (Some fmUnmodified)) []) ''note.md'' ?tracked)"
    by blast
  from m5 modes [of "constructed DEFAULT_SETTINGS []" "''note.md''"
      "utcHost (cacheOf ''note.md'' (Some fmGarbled)) []"
      "\<lparr>frontmatter = Some fmGarbled\<rparr>" fmGarbled]
  have c5: "''note.md'' \<in> needsFormatPaths
        (checkFile (utcHost (cacheOf ''note.md'' (Some fmGarbled)) []) ''note.md''
           (constructed DEFAULT_SETTINGS []))"
    by blast
  show ?thesis
    using m1 m2 m3 m4 m5 c1 c2 c3 c4 c5
    by (simp add: unmodified_fields garbled_fields toMs_0114_utc toMs_yesterday)
qed

text \<open>
  The claim as first stated fails: a file in scope whose frontmatter has no formatted
  field, or one that does not parse, is tracked and gets its marker.
\<close>

theorem checkFile_failure_modes_counterexample:
  "isInScope DEFAULT_SETTINGS ''note.md''
   \<and> field fmUnformatted (formattedField DEFAULT_SETTINGS) = Undefined
   \<and> \<not> notMarked ''note.md''
        (checkFile (utcHost (cacheOf ''note.md'' (Some fmUnformatted)) [''note.md'']) ''note.md''
           (constructed DEFAULT_SETTINGS [(''note.md'', 0)]))
   \<and> dotsShown ''note.md''
        (applyDecorations
           (checkFile (utcHost (cacheOf ''note.md'' (Some fmUnformatted)) [''note.md'']) ''note.md''
              (constructed DEFAULT_SETTINGS [(''note.md'', 0)]))) = 1
   \<and> toMs (utcHost (cacheOf ''note.md'' (Some fmGarbled)) [''note.md''])
        (field fmGarbled (formattedField DEFAULT_SETTINGS)) = None
   \<and> \<not> notMarked ''note.md''
        (checkFile (utcHost (cacheOf ''note.md'' (Some fmGarbled)) [''note.md'']) ''note.md''
           (constructed DEFAULT_SETTINGS [(''note.md'', 0)]))"
  by (simp add: notMarked_iff checkFile_paths verdict_def cacheOf_def unformatted_fields
      garbled_fields toMs_yesterday needsFormat_def dotsShown_applyDecorations)

section \<open>C2: the needs-formatting predicate\<close>

text \<open>
  C2. The predicate of \<^verbatim>\<open>checkFile\<close> equals the reference definition of the specification:
  it is true when the formatted value is absent, it is the strict comparison when both
  values are present, and it is false when only the formatted value is present.
\<close>

theorem needsFormat_refines_spec:
  "needsFormat formattedMs modifiedMs = needsFormat_spec formattedMs modifiedMs
   \<and> needsFormat None modifiedMs = True
   \<and> needsFormat (Some f) (Some m) = (f < m)
   \<and> needsFormat (Some f) None = False"
  by (cases formattedMs; cases modifiedMs) (simp_all add: needsFormat_def needsFormat_spec_def)

section \<open>C3: files with no formatted value\<close>

text \<open>
  C3, as amended. For every in-scope file whose cache entry has frontmatter with no
  formatted-field value (the key is absent, or has no value), \<^verbatim>\<open>checkFile\<close> leaves the
  path in the tracked set; a file whose cache entry has no frontmatter at all is not
  tracked.
\<close>

theorem checkFile_no_formatted_value:
  "(isInScope (settings st) p \<and> getFileCache h p = Some c \<and> frontmatter c = Some fm
      \<and> field fm (formattedField (settings st)) \<in> {Undefined, Null}
    \<longrightarrow> p \<in> needsFormatPaths (checkFile h p st))
   \<and> (getFileCache h p = Some c \<and> frontmatter c = None
    \<longrightarrow> p \<notin> needsFormatPaths (checkFile h p st))"
  by (auto simp: checkFile_paths verdict_def needsFormat_def)

theorem checkFile_no_formatted_value_witness:
  "isInScope DEFAULT_SETTINGS ''note.md''
   \<and> field fmUnformatted (formattedField DEFAULT_SETTINGS) = Undefined
   \<and> ''note.md'' \<in> needsFormatPaths
        (checkFile (utcHost (cacheOf ''note.md'' (Some fmUnformatted)) []) ''note.md''
           (constructed DEFAULT_SETTINGS []))
   \<and> getFileCache (utcHost (cacheOf ''note.md'' None) []) ''note.md'' = Some \<lparr>frontmatter = None\<rparr>
   \<and> ''note.md'' \<notin> needsFormatPaths
        (checkFile (utcHost (cacheOf ''note.md'' None) []) ''note.md''
           ((constructed DEFAULT_SETTINGS [])\<lparr>needsFormatPaths := {''note.md''}\<rparr>))"
proof -
  let ?tracked = "(constructed DEFAULT_SETTINGS [])\<lparr>needsFormatPaths := {''note.md''}\<rparr>"
  have a: "isInScope (settings (constructed DEFAULT_SETTINGS [])) ''note.md''
           \<and> getFileCache (utcHost (cacheOf ''note.md'' (Some fmUnformatted)) []) ''note.md''
               = Some \<lparr>frontmatter = Some fmUnformatted\<rparr>
           \<and> frontmatter \<lparr>frontmatter = Some fmUnformatted\<rparr> = Some fmUnformatted
           \<and> field fmUnformatted (formattedField (settings (constructed DEFAULT_SETTINGS [])))
                \<in> {Undefined, Null}"
    by (simp add: cacheOf_def unformatted_fields)
  have b: "getFileCache (utcHost (cacheOf ''note.md'' None) []) ''note.md'' = Some \<lparr>frontmatter = None\<rparr>
           \<and> frontmatter \<lparr>frontmatter = None\<rparr> = None"
    by (simp add: cacheOf_def)
  from a checkFile_no_formatted_value [of "constructed DEFAULT_SETTINGS []" "''note.md''"
      "utcHost (cacheOf ''note.md'' (Some fmUnformatted)) []"
      "\<lparr>frontmatter = Some fmUnformatted\<rparr>" fmUnformatted]
  have c1: "''note.md'' \<in> needsFormatPaths
        (checkFile (utcHost (cacheOf ''note.md'' (Some fmUnformatted)) []) ''note.md''
           (constructed DEFAULT_SETTINGS []))"
    by blast
  from b checkFile_no_formatted_value [where p = "''note.md''"
      and h = "utcHost (cacheOf ''note.md'' None) []" and c = "\<lparr>frontmatter = None\<rparr>"
      and st = ?tracked]
  have c2: "''note.md'' \<notin> needsFormatPaths
        (checkFile (utcHost (cacheOf ''note.md'' None) []) ''note.md'' ?tracked)"
    by blast
  show ?thesis
    using a b c1 c2 by (simp add: unformatted_fields)
qed

text \<open>
  The claim as first stated fails for a file in scope whose cache entry has no
  frontmatter: neither \<^verbatim>\<open>checkFile\<close> nor a full scan tracks it.
\<close>

theorem checkFile_no_frontmatter_counterexample:
  "isInScope DEFAULT_SETTINGS ''note.md''
   \<and> getFileCache (utcHost (cacheOf ''note.md'' None) [''note.md'']) ''note.md''
       = Some \<lparr>frontmatter = None\<rparr>
   \<and> ''note.md'' \<notin> needsFormatPaths
        (checkFile (utcHost (cacheOf ''note.md'' None) [''note.md'']) ''note.md''
           (constructed DEFAULT_SETTINGS []))
   \<and> ''note.md'' \<notin> needsFormatPaths
        (scanAllFiles (utcHost (cacheOf ''note.md'' None) [''note.md''])
           (constructed DEFAULT_SETTINGS []))"
  by (simp add: checkFile_paths verdict_def cacheOf_def scanAllFiles_def)

section \<open>C4: what the tracked set holds\<close>




section \<open>C5: folder scope\<close>

text \<open>
  C5. With a non-empty list of folders, a path that does not start with any entry
  followed by \<^verbatim>\<open>/\<close> (appended only when the entry does not end with one) is not in the
  tracked set after \<^verbatim>\<open>checkFile\<close>, whatever its cache entry and whatever the set held.
\<close>

theorem checkFile_out_of_scope:
  assumes "includedFolders (settings st) \<noteq> []"
    and "\<forall>folder \<in> set (includedFolders (settings st)).
           \<not> prefix (folder @ (if folder \<noteq> [] \<and> last folder = CHR ''/'' then [] else ''/'')) p"
  shows "p \<notin> needsFormatPaths (checkFile h p st)"
proof -
  have "\<not> isInScope (settings st) p"
    using assms by (auto simp: isInScope_def list_ex_iff startsWith_def endsWith_slash Let_def)
  then show ?thesis
    by (simp add: checkFile_paths verdict_def)
qed

theorem checkFile_out_of_scope_witness:
  "includedFolders (DEFAULT_SETTINGS\<lparr>includedFolders := [''References'', ''library/'']\<rparr>) \<noteq> []
   \<and> \<not> prefix ''References/'' ''References2/note.md''
   \<and> \<not> prefix ''library/'' ''References2/note.md''
   \<and> ''References2/note.md'' \<notin> needsFormatPaths
        (checkFile (utcHost (cacheOf ''References2/note.md'' (Some fmStale)) []) ''References2/note.md''
           ((constructed (DEFAULT_SETTINGS\<lparr>includedFolders := [''References'', ''library/'']\<rparr>) [])
              \<lparr>needsFormatPaths := {''References2/note.md''}\<rparr>))"
proof -
  let ?st = "(constructed (DEFAULT_SETTINGS\<lparr>includedFolders := [''References'', ''library/'']\<rparr>) [])
              \<lparr>needsFormatPaths := {''References2/note.md''}\<rparr>"
  have a: "includedFolders (settings ?st) \<noteq> []"
    by simp
  have b: "\<forall>folder \<in> set (includedFolders (settings ?st)).
           \<not> prefix (folder @ (if folder \<noteq> [] \<and> last folder = CHR ''/'' then [] else ''/''))
               ''References2/note.md''"
    by simp
  show ?thesis
    using checkFile_out_of_scope [OF a b, of "utcHost (cacheOf ''References2/note.md'' (Some fmStale)) []"]
    by simp
qed

section \<open>C6: the example of the specification\<close>

text \<open>
  C6. With frontmatter \<^verbatim>\<open>{modified: "2026-01-15 09:30", formatted: "2026-01-14 18:00"}\<close> the
  file needs formatting, with the two values exchanged it does not; \<^verbatim>\<open>toMs\<close> parses both
  strings by the layout \<^verbatim>\<open>YYYY-MM-DD HH:mm\<close>, as local times. The runtime's time zone is
  taken to have offsets of at most a day at the two local times, which differ by less
  than the fifteen and a half hours between them.
\<close>

theorem readme_example:
  assumes "\<bar>LocalTZA h (localTime 2026 1 15 9 30)\<bar> \<le> msPerDay"
    and "\<bar>LocalTZA h (localTime 2026 1 14 18 0)\<bar> \<le> msPerDay"
    and "LocalTZA h (localTime 2026 1 15 9 30) - LocalTZA h (localTime 2026 1 14 18 0) < 55800000"
  shows "needsFormat (toMs h (field fmStale ''formatted'')) (toMs h (field fmStale ''modified''))
         \<and> \<not> needsFormat (toMs h (field fmFresh ''formatted'')) (toMs h (field fmFresh ''modified''))
         \<and> toMs h (StringVal ''2026-01-15 09:30'')
             = Some (localTime 2026 1 15 9 30 - LocalTZA h (localTime 2026 1 15 9 30))
         \<and> toMs h (StringVal ''2026-01-14 18:00'')
             = Some (localTime 2026 1 14 18 0 - LocalTZA h (localTime 2026 1 14 18 0))
         \<and> ''note.md'' \<in> needsFormatPaths
              (checkFile (h\<lparr>getFileCache := cacheOf ''note.md'' (Some fmStale)\<rparr>) ''note.md''
                 (constructed DEFAULT_SETTINGS items))
         \<and> ''note.md'' \<notin> needsFormatPaths
              (checkFile (h\<lparr>getFileCache := cacheOf ''note.md'' (Some fmFresh)\<rparr>) ''note.md''
                 (constructed DEFAULT_SETTINGS items))"
proof -
  note num = example_numeric [OF assms [unfolded localTime_values msPerDay_def]]
  have fields: "formattedField DEFAULT_SETTINGS = ''formatted''"
    "modifiedField DEFAULT_SETTINGS = ''modified''"
    by (simp_all add: DEFAULT_SETTINGS_def)
  have stale: "verdict (h\<lparr>getFileCache := cacheOf ''note.md'' (Some fmStale)\<rparr>) DEFAULT_SETTINGS ''note.md''"
    using num(3) by (simp add: verdict_def cacheOf_def fields example_fields)
  have fresh: "\<not> verdict (h\<lparr>getFileCache := cacheOf ''note.md'' (Some fmFresh)\<rparr>) DEFAULT_SETTINGS ''note.md''"
    using num(4) by (simp add: verdict_def cacheOf_def fields example_fields)
  have sets: "settings (constructed DEFAULT_SETTINGS items) = DEFAULT_SETTINGS"
    "needsFormatPaths (constructed DEFAULT_SETTINGS items) = {}"
    by (simp_all add: constructed_def)
  show ?thesis
    unfolding localTime_values example_fields checkFile_paths sets
    using num stale fresh by (simp)
qed

theorem readme_example_witness:
  "\<bar>LocalTZA (utcHost (\<lambda>p. None) []) (localTime 2026 1 15 9 30)\<bar> \<le> msPerDay
   \<and> \<bar>LocalTZA (utcHost (\<lambda>p. None) []) (localTime 2026 1 14 18 0)\<bar> \<le> msPerDay
   \<and> LocalTZA (utcHost (\<lambda>p. None) []) (localTime 2026 1 15 9 30)
        - LocalTZA (utcHost (\<lambda>p. None) []) (localTime 2026 1 14 18 0) < 55800000
   \<and> toMs (utcHost (\<lambda>p. None) []) (StringVal ''2026-01-15 09:30'') = Some 1768469400000
   \<and> toMs (utcHost (\<lambda>p. None) []) (StringVal ''2026-01-14 18:00'') = Some 1768413600000
   \<and> needsFormat (toMs (utcHost (\<lambda>p. None) []) (field fmStale ''formatted''))
        (toMs (utcHost (\<lambda>p. None) []) (field fmStale ''modified''))
   \<and> \<not> needsFormat (toMs (utcHost (\<lambda>p. None) []) (field fmFresh ''formatted''))
        (toMs (utcHost (\<lambda>p. None) []) (field fmFresh ''modified''))"
proof -
  let ?h = "utcHost (\<lambda>p. None) []"
  have h1: "\<bar>LocalTZA ?h (localTime 2026 1 15 9 30)\<bar> \<le> msPerDay"
    and h2: "\<bar>LocalTZA ?h (localTime 2026 1 14 18 0)\<bar> \<le> msPerDay"
    and h3: "LocalTZA ?h (localTime 2026 1 15 9 30) - LocalTZA ?h (localTime 2026 1 14 18 0) < 55800000"
    by (simp_all add: utcHost_def msPerDay_def)
  have z: "LocalTZA ?h t = 0" for t
    by (simp add: utcHost_def)
  show ?thesis
    using h1 h2 h3 readme_example [OF h1 h2 h3, of "[]"]
    unfolding z localTime_values by (simp)
qed

section \<open>C7: exchanging the field names\<close>

text \<open>
  C7. For a file in scope with a frontmatter snapshot, \<^verbatim>\<open>checkFile\<close> under the settings
  with the two field names exchanged decides by the predicate with its two arguments
  exchanged: the field names alone determine which keys are read.
\<close>

theorem checkFile_swapped_fields:
  assumes "isInScope (settings st) p"
    and "getFileCache h p = Some c"
    and "frontmatter c = Some fm"
  shows "(p \<in> needsFormatPaths (checkFile h p (st\<lparr>settings := swapFields (settings st)\<rparr>)))
           = needsFormat (toMs h (field fm (modifiedField (settings st))))
               (toMs h (field fm (formattedField (settings st))))
         \<and> (p \<in> needsFormatPaths (checkFile h p st))
           = needsFormat (toMs h (field fm (formattedField (settings st))))
               (toMs h (field fm (modifiedField (settings st))))"
  using assms by (simp add: checkFile_paths verdict_def)

theorem checkFile_swapped_fields_witness:
  "isInScope DEFAULT_SETTINGS ''note.md''
   \<and> formattedField (swapFields DEFAULT_SETTINGS) = ''modified''
   \<and> modifiedField (swapFields DEFAULT_SETTINGS) = ''formatted''
   \<and> ''note.md'' \<in> needsFormatPaths
        (checkFile (utcHost (cacheOf ''note.md'' (Some fmStale)) []) ''note.md''
           (constructed DEFAULT_SETTINGS []))
   \<and> ''note.md'' \<notin> needsFormatPaths
        (checkFile (utcHost (cacheOf ''note.md'' (Some fmStale)) []) ''note.md''
           ((constructed DEFAULT_SETTINGS [])\<lparr>settings := swapFields DEFAULT_SETTINGS\<rparr>))"
proof -
  let ?h = "utcHost (cacheOf ''note.md'' (Some fmStale)) []"
  let ?st = "constructed DEFAULT_SETTINGS []"
  have a: "isInScope (settings ?st) ''note.md''"
    by simp
  have b: "getFileCache ?h ''note.md'' = Some \<lparr>frontmatter = Some fmStale\<rparr>"
    by (simp add: cacheOf_def)
  have c: "frontmatter \<lparr>frontmatter = Some fmStale\<rparr> = Some fmStale"
    by simp
  show ?thesis
    using checkFile_swapped_fields [OF a b c]
    by (simp add: example_fields toMs_0115_utc toMs_0114_utc needsFormat_def)
qed

section \<open>C8: loading the settings\<close>

text \<open>
  C8. Whatever subset of the four properties was stored (also none, or nothing at all),
  \<^verbatim>\<open>loadSettings\<close> yields an object with all four properties present, each equal to the
  stored value when there is one and to that of \<^verbatim>\<open>DEFAULT_SETTINGS\<close> otherwise.
\<close>

theorem loadSettings_defaults:
  "loadSettings blob =
     asObject
       \<lparr>dotColor = storedOrDefault blob dotColor_opt (dotColor DEFAULT_SETTINGS),
        includedFolders = storedOrDefault blob includedFolders_opt (includedFolders DEFAULT_SETTINGS),
        formattedField = storedOrDefault blob formattedField_opt (formattedField DEFAULT_SETTINGS),
        modifiedField = storedOrDefault blob modifiedField_opt (modifiedField DEFAULT_SETTINGS)\<rparr>"
  by (simp add: loadSettings_def Object_assign_def copyProperties_def asObject_def
      emptyObject_def storedOrDefault_def split: option.splits)

theorem loadSettings_defaults_witness:
  "loadSettings None = asObject DEFAULT_SETTINGS
   \<and> loadSettings (Some emptyObject) = asObject DEFAULT_SETTINGS
   \<and> loadSettings (Some (emptyObject\<lparr>includedFolders_opt := Some [''References''],
                                     modifiedField_opt := Some ''updated''\<rparr>))
       = asObject \<lparr>dotColor = ''#f59e0b'', includedFolders = [''References''],
                   formattedField = ''formatted'', modifiedField = ''updated''\<rparr>"
  using loadSettings_defaults [of None] loadSettings_defaults [of "Some emptyObject"]
    loadSettings_defaults [of "Some (emptyObject\<lparr>includedFolders_opt := Some [''References''],
                                     modifiedField_opt := Some ''updated''\<rparr>)"]
  by (simp add: storedOrDefault_def emptyObject_def DEFAULT_SETTINGS_def)

section \<open>C9: the debounce\<close>

text \<open>
  C9. From a state with no pending timeout, after any sequence of events at most one
  timeout is pending. A burst of calls of \<^verbatim>\<open>scheduleApplyDecorations\<close>, each less than 50
  milliseconds after the one before, runs \<^verbatim>\<open>applyDecorations\<close> not once while it lasts,
  leaves the rendered items as they were and leaves one timeout pending; once 50
  milliseconds have passed after the last call, \<^verbatim>\<open>applyDecorations\<close> has run exactly once,
  the rendered items are those it yields, and nothing is pending.
\<close>

theorem debounce_single_timer:
  assumes "timers st0 = []" and "0 < nextHandle st0"
    and "\<forall>g \<in> set gaps. g < 50" and "50 \<le> d"
  shows "length (timers (snd (run evs (h, st0)))) \<le> 1
         \<and> applyDecorationsRuns (snd (run (burst gaps) (run evs (h, st0))))
             = applyDecorationsRuns (snd (run evs (h, st0)))
         \<and> navFileTitles (snd (run (burst gaps) (run evs (h, st0))))
             = navFileTitles (snd (run evs (h, st0)))
         \<and> length (timers (snd (run (burst gaps) (run evs (h, st0))))) = 1
         \<and> applyDecorationsRuns (snd (run (burst gaps @ [TimePasses d]) (run evs (h, st0))))
             = applyDecorationsRuns (snd (run evs (h, st0))) + 1
         \<and> navFileTitles (snd (run (burst gaps @ [TimePasses d]) (run evs (h, st0))))
             = navFileTitles (applyDecorations (snd (run evs (h, st0))))
         \<and> timers (snd (run (burst gaps @ [TimePasses d]) (run evs (h, st0)))) = []"
proof -
  obtain h1 st1 where w1: "run evs (h, st0) = (h1, st1)"
    by (cases "run evs (h, st0)")
  have "debounceInv st0"
    using assms(1,2) by (simp add: debounceInv_def)
  then have "debounceInv (snd (run evs (h, st0)))"
    by (rule debounceInv_run)
  then have inv1: "debounceInv st1"
    by (simp add: w1)
  obtain h2 st2 where w2: "run (burst gaps) (h1, st1) = (h2, st2)"
    by (cases "run (burst gaps) (h1, st1)")
  from burst_armed [OF inv1 assms(3), of h1] w2
  have b: "armed st2" "applyDecorationsRuns st2 = applyDecorationsRuns st1"
    "navFileTitles st2 = navFileTitles st1" "needsFormatPaths st2 = needsFormatPaths st1"
    by simp_all
  from b(1) have one: "length (timers st2) = 1"
    by (auto simp: armed_iff)
  have dom: "navFileTitles (applyDecorations st2) = navFileTitles (applyDecorations st1)"
    using b(4,3) by (rule navFileTitles_applyDecorations_cong)
  from armed_elapse_long [OF b(1) assms(4)] b(2) dom
  have "timers (elapse d st2) = []"
    "applyDecorationsRuns (elapse d st2) = applyDecorationsRuns st1 + 1"
    "navFileTitles (elapse d st2) = navFileTitles (applyDecorations st1)"
    by simp_all
  with debounceInv_pending [OF inv1] b one show ?thesis
    by (simp add: w1 w2 run_append)
qed

theorem debounce_single_timer_witness:
  "timers (constructed DEFAULT_SETTINGS [(''b.md'', 0)]) = []
   \<and> 0 < nextHandle (constructed DEFAULT_SETTINGS [(''b.md'', 0)])
   \<and> (10::nat) < 50 \<and> (49::nat) < 50 \<and> (50::nat) \<le> 50
   \<and> length (timers (snd (run sampleEvents
        (sampleHost, constructed DEFAULT_SETTINGS [(''b.md'', 0)])))) \<le> 1
   \<and> applyDecorationsRuns (snd (run sampleEvents
        (sampleHost, constructed DEFAULT_SETTINGS [(''b.md'', 0)]))) = 1
   \<and> applyDecorationsRuns (snd (run (burst [10, 49])
        (run sampleEvents (sampleHost, constructed DEFAULT_SETTINGS [(''b.md'', 0)])))) = 1
   \<and> navFileTitles (snd (run (burst [10, 49])
        (run sampleEvents (sampleHost, constructed DEFAULT_SETTINGS [(''b.md'', 0)]))))
       = [(''b.md'', 0)]
   \<and> length (timers (snd (run (burst [10, 49])
        (run sampleEvents (sampleHost, constructed DEFAULT_SETTINGS [(''b.md'', 0)]))))) = 1
   \<and> applyDecorationsRuns (snd (run (burst [10, 49] @ [TimePasses 50])
        (run sampleEvents (sampleHost, constructed DEFAULT_SETTINGS [(''b.md'', 0)])))) = 2
   \<and> navFileTitles (snd (run (burst [10, 49] @ [TimePasses 50])
        (run sampleEvents (sampleHost, constructed DEFAULT_SETTINGS [(''b.md'', 0)]))))
       = [(''b.md'', 1)]
   \<and> timers (snd (run (burst [10, 49] @ [TimePasses 50])
        (run sampleEvents (sampleHost, constructed DEFAULT_SETTINGS [(''b.md'', 0)])))) = []"
proof -
  let ?st0 = "constructed DEFAULT_SETTINGS [(''b.md'', 0)]"
  have a: "timers ?st0 = []"
    and b: "0 < nextHandle ?st0"
    by simp_all
  have c: "\<forall>g \<in> set [10, 49 :: nat]. g < 50"
    by simp
  have d: "(50::nat) \<le> 50"
    by simp
  have dom: "navFileTitles (applyDecorations (snd (run sampleEvents (sampleHost, ?st0))))
               = [(''b.md'', 1)]"
    by (simp add: applyDecorations_def sample_dom sample_run)
  show ?thesis
    using a b debounce_single_timer [OF a b c d, of sampleEvents sampleHost]
    by (simp add: sample_dom dom)
qed

section \<open>C10: renaming\<close>

text \<open>
  C10. After the rename handler has run for a file, the old path is not tracked (the new
  path differs from it). If the old path was not tracked, the set is as it was: the file
  is not checked under its new path, and stays untracked there even when \<^verbatim>\<open>checkFile\<close>
  would track it, until a metadata change is reported for it or the vault is scanned.
\<close>

theorem onRename_untracked:
  "(p \<noteq> oldPath \<longrightarrow> oldPath \<notin> needsFormatPaths (onRename h (TFile p) oldPath st))
   \<and> (oldPath \<notin> needsFormatPaths st
        \<longrightarrow> needsFormatPaths (onRename h (TFile p) oldPath st) = needsFormatPaths st)
   \<and> (oldPath \<notin> needsFormatPaths st \<and> p \<notin> needsFormatPaths st \<and> verdict h (settings st) p
        \<longrightarrow> p \<notin> needsFormatPaths (onRename h (TFile p) oldPath st)
            \<and> p \<in> needsFormatPaths (checkFile h p st)
            \<and> p \<in> needsFormatPaths (onChanged h p (onRename h (TFile p) oldPath st))
            \<and> (p \<in> set (getMarkdownFiles h)
                 \<longrightarrow> p \<in> needsFormatPaths (scanAllFiles h (onRename h (TFile p) oldPath st))))"
  by (simp add: onRename_paths checkFile_paths onChanged_def scanAllFiles_paths)

theorem onRename_untracked_witness:
  "''new.md'' \<noteq> ''old.md''
   \<and> ''old.md'' \<notin> needsFormatPaths
        (onRename (utcHost (cacheOf ''new.md'' (Some fmUnformatted)) [''new.md'']) (TFile ''new.md'')
           ''old.md'' ((constructed DEFAULT_SETTINGS [])\<lparr>needsFormatPaths := {''old.md''}\<rparr>))
   \<and> ''old.md'' \<notin> needsFormatPaths (constructed DEFAULT_SETTINGS [])
   \<and> ''new.md'' \<notin> needsFormatPaths (constructed DEFAULT_SETTINGS [])
   \<and> verdict (utcHost (cacheOf ''new.md'' (Some fmUnformatted)) [''new.md'']) DEFAULT_SETTINGS ''new.md''
   \<and> needsFormatPaths
        (onRename (utcHost (cacheOf ''new.md'' (Some fmUnformatted)) [''new.md'']) (TFile ''new.md'')
           ''old.md'' (constructed DEFAULT_SETTINGS [])) = {}
   \<and> ''new.md'' \<in> needsFormatPaths
        (checkFile (utcHost (cacheOf ''new.md'' (Some fmUnformatted)) [''new.md'']) ''new.md''
           (constructed DEFAULT_SETTINGS []))
   \<and> ''new.md'' \<in> needsFormatPaths
        (scanAllFiles (utcHost (cacheOf ''new.md'' (Some fmUnformatted)) [''new.md''])
           (onRename (utcHost (cacheOf ''new.md'' (Some fmUnformatted)) [''new.md'']) (TFile ''new.md'')
              ''old.md'' (constructed DEFAULT_SETTINGS [])))"
proof -
  let ?h = "utcHost (cacheOf ''new.md'' (Some fmUnformatted)) [''new.md'']"
  let ?st = "constructed DEFAULT_SETTINGS []"
  let ?tracked = "?st\<lparr>needsFormatPaths := {''old.md''}\<rparr>"
  have a: "''new.md'' \<noteq> ''old.md''"
    by simp
  have b: "''old.md'' \<notin> needsFormatPaths ?st" "''new.md'' \<notin> needsFormatPaths ?st"
    by simp_all
  have v: "verdict ?h (settings ?st) ''new.md''"
    by (simp add: verdict_def cacheOf_def unformatted_fields needsFormat_def)
  have l: "''new.md'' \<in> set (getMarkdownFiles ?h)"
    by simp
  from a onRename_untracked [of "''new.md''" "''old.md''" ?h ?tracked]
  have c1: "''old.md'' \<notin> needsFormatPaths (onRename ?h (TFile ''new.md'') ''old.md'' ?tracked)"
    by blast
  from b v l onRename_untracked [of "''new.md''" "''old.md''" ?h ?st]
  have c2: "needsFormatPaths (onRename ?h (TFile ''new.md'') ''old.md'' ?st) = needsFormatPaths ?st"
    and c3: "''new.md'' \<in> needsFormatPaths (checkFile ?h ''new.md'' ?st)"
    and c4: "''new.md'' \<in> needsFormatPaths
               (scanAllFiles ?h (onRename ?h (TFile ''new.md'') ''old.md'' ?st))"
    by blast+
  show ?thesis
    using a b v c1 c2 c3 c4 by simp
qed

end
